theory Spec2Isabelle
  imports Main "HOL-Library.Word"
begin

unbundle bit_operations_syntax

section \<open>The announce result model (nem-announce-resource.ts)\<close>

text \<open>
  \<^verbatim>\<open>export enum TypeNemAnnounceResult { Validation = 1, HeartBeat = 2, Status = 4 }\<close>
  A numeric TypeScript enum: the members, the number each one stands for, and the reverse
  mapping from a number to its member that the compiled enum object carries as well.
\<close>

datatype TypeNemAnnounceResult = Validation | HeartBeat | Status





text \<open>
  Modelled from the spec: \<open>NemHash\<close> is imported from \<^verbatim>\<open>./hash-data\<close>, whose
  declaration is not among the sources; the spec calls the two fields of that type
  content hashes, so a hash is its text.
\<close>

type_synonym NemHash = string

text \<open>
  The class \<open>NemAnnounceResult\<close>: five public read-only fields, which the constructor
  sets from its parameters.
\<close>

record NemAnnounceResult =
  type :: TypeNemAnnounceResult
  code :: nat
  message :: string
  transactionHash :: NemHash
  innerTransactionHash :: NemHash


section \<open>JavaScript values and the request records\<close>

text \<open>
  A property of a JavaScript object holds \<^verbatim>\<open>null\<close>, \<^verbatim>\<open>undefined\<close> (also what reading an
  absent property gives) or a value; the same holds for a parameter typed with a class.
\<close>

datatype 'a nullable = Null | Undefined | Val 'a

text \<open>
  What the code throws: \<^verbatim>\<open>new Error(message)\<close>, the \<^verbatim>\<open>TypeError\<close> of a property read on
  \<^verbatim>\<open>undefined\<close>, and whatever a collaborator fails with (an \<^verbatim>\<open>HttpErrorResponse\<close> with
  its status, or any other exception by name).
\<close>

datatype error =
    Error string
  | TypeError string
  | HttpErrorResponse nat
  | Exception string

datatype MessageType = PLAIN | SECURE

text \<open>
  A JavaScript string is a sequence of 16-bit code units. The service looks into the
  characters of one string only, the text of a text upload, which goes through \<open>btoa\<close>;
  that string is kept as its code units. Every other string (metadata, keys, URLs, bodies,
  messages) is handed on as it is and is an Isabelle string. \<open>codeUnits\<close> gives the code
  units of a string of characters up to U+00FF.
\<close>

type_synonym js_string = "16 word list"

definition codeUnits :: "string \<Rightarrow> js_string" where
  "codeUnits s = map of_char s"

text \<open>
  \<open>UploadTextRequest\<close> and \<open>UploadBinaryRequest\<close> are imported from \<^verbatim>\<open>../../model/\<close>;
  their declarations are not among the sources. The records have the fields the service
  reads or writes; \<open>text\<close> is a keyword of Isabelle, so that field is \<open>text'\<close>. A binary
  payload is a sequence of bytes.
\<close>

record UploadTextRequest =
  text' :: "js_string nullable"
  metadata :: "string nullable"
  senderPrivateKey :: string
  recieverPublicKey :: string
  messageType :: MessageType

record UploadBinaryRequest =
  data :: "8 word list nullable"
  metadataB :: "string nullable"
  senderPrivateKeyB :: string
  recieverPublicKeyB :: string
  messageTypeB :: MessageType

section \<open>Base64\<close>

text \<open>
  Modelled from the spec: the spec has text payloads encoded in base64 and the response
  body base64-decoded; the functions that do it (the built-in \<open>btoa\<close> and \<open>decode\<close> of
  \<^verbatim>\<open>typescript-base64-arraybuffer\<close>) are not among the sources. Base64 is the encoding of
  RFC 4648: three bytes become four characters of a 64-character alphabet, and a last group
  of one or two bytes is padded with \<open>=\<close>.
\<close>

definition base64_chars :: string where
  "base64_chars = ''ABCDEFGHIJKLMNOPQRSTUVWXYZabcdefghijklmnopqrstuvwxyz0123456789+/''"

fun base64_encode :: "8 word list \<Rightarrow> string" where
  "base64_encode (a # b # c # rest) =
     [base64_chars ! (unat a div 4),
      base64_chars ! ((unat a mod 4) * 16 + unat b div 16),
      base64_chars ! ((unat b mod 16) * 4 + unat c div 64),
      base64_chars ! (unat c mod 64)] @ base64_encode rest"
| "base64_encode [a, b] =
     [base64_chars ! (unat a div 4),
      base64_chars ! ((unat a mod 4) * 16 + unat b div 16),
      base64_chars ! ((unat b mod 16) * 4),
      CHR ''='']"
| "base64_encode [a] =
     [base64_chars ! (unat a div 4), base64_chars ! ((unat a mod 4) * 16), CHR ''='', CHR ''='']"
| "base64_encode [] = []"

text \<open>
  The decoder looks each character up in the alphabet (a character outside it counts as
  0, as \<open>=\<close> does), turns every four characters into three bytes, and keeps as many bytes
  as the length of the text and its padding announce: three quarters of the length, less
  one for each of up to two trailing \<open>=\<close>.
\<close>

fun index_of :: "'a \<Rightarrow> 'a list \<Rightarrow> nat option" where
  "index_of x [] = None"
| "index_of x (y # ys) =
     (if x = y then Some 0
      else (case index_of x ys of None \<Rightarrow> None | Some i \<Rightarrow> Some (Suc i)))"

definition base64_lookup :: "char \<Rightarrow> nat" where
  "base64_lookup c = (case index_of c base64_chars of None \<Rightarrow> 0 | Some i \<Rightarrow> i)"

definition bytes3 :: "nat \<Rightarrow> nat \<Rightarrow> nat \<Rightarrow> nat \<Rightarrow> 8 word list" where
  "bytes3 e1 e2 e3 e4 =
     [of_nat (e1 * 4 + e2 div 16),
      of_nat ((e2 mod 16) * 16 + e3 div 4),
      of_nat ((e3 mod 4) * 64 + e4 mod 64)]"

fun decode_groups :: "string \<Rightarrow> 8 word list" where
  "decode_groups (c1 # c2 # c3 # c4 # rest) =
     bytes3 (base64_lookup c1) (base64_lookup c2) (base64_lookup c3) (base64_lookup c4)
       @ decode_groups rest"
| "decode_groups [c1, c2, c3] =
     bytes3 (base64_lookup c1) (base64_lookup c2) (base64_lookup c3) 0"
| "decode_groups [c1, c2] = bytes3 (base64_lookup c1) (base64_lookup c2) 0 0"
| "decode_groups [c1] = bytes3 (base64_lookup c1) 0 0 0"
| "decode_groups [] = []"

definition bufferLength :: "string \<Rightarrow> nat" where
  "bufferLength base64 =
     (let len = length base64 in
      (len * 3) div 4 -
        (if len \<ge> 1 \<and> base64 ! (len - 1) = CHR ''='' then
           (if len \<ge> 2 \<and> base64 ! (len - 2) = CHR ''='' then 2 else 1)
         else 0))"

definition decode :: "string \<Rightarrow> 8 word list" where
  "decode base64 = take (bufferLength base64) (decode_groups base64)"

text \<open>
  \<open>btoa\<close> encodes a string whose characters are all at most U+00FF, one byte for each
  character, and throws an \<open>InvalidCharacterError\<close> on any other string. The text it
  returns is again a JavaScript string.
\<close>

definition btoa_builtin :: "js_string \<Rightarrow> error + js_string" where
  "btoa_builtin s =
     (if list_all (\<lambda>u. u \<le> 0xFF) s then Inr (codeUnits (base64_encode (map ucast s)))
      else Inl (Exception ''InvalidCharacterError''))"

section \<open>Collaborators\<close>

text \<open>
  The response of the transport (\<^verbatim>\<open>HttpResponse<string>\<close>, of which the service reads the
  body) and the options object the service passes to \<^verbatim>\<open>http.post\<close>.
\<close>

record HttpResponse =
  body :: string
  status :: nat

record HttpOptions =
  responseType :: string
  headers :: "(string \<times> string) list"
  observe :: string
  reportProgress :: bool

text \<open>
  Modelled from the spec: \<open>SignedTransaction\<close> is imported from \<^verbatim>\<open>../../model/\<close> and is
  not among the sources. The spec describes it as an opaque signed-transaction payload.
\<close>

datatype SignedTransaction = SignedTransaction string

text \<open>
  \<^verbatim>\<open>new flatbuffers.ByteBuffer(data)\<close> wraps the bytes, reading from position 0.
  \<open>readInt32\<close> reads four bytes at an offset as a little-endian two's complement number;
  a byte past the end of the buffer reads as 0.
\<close>

record ByteBuffer =
  bytes :: "8 word list"
  position :: nat

definition ByteBuffer_new :: "8 word list \<Rightarrow> ByteBuffer" where
  "ByteBuffer_new d = \<lparr>bytes = d, position = 0\<rparr>"

definition byteAt :: "ByteBuffer \<Rightarrow> nat \<Rightarrow> 32 word" where
  "byteAt b i = (if i < length (bytes b) then ucast (bytes b ! i) else 0)"

definition readInt32 :: "ByteBuffer \<Rightarrow> nat \<Rightarrow> int" where
  "readInt32 b offset =
     sint (byteAt b offset OR push_bit 8 (byteAt b (offset + 1))
           OR push_bit 16 (byteAt b (offset + 2)) OR push_bit 24 (byteAt b (offset + 3)))"

text \<open>
  Modelled from the spec: \<open>ResourceHashMessage\<close> is imported from \<^verbatim>\<open>../../model/\<close> and is
  not among the sources. The spec has the decoded bytes interpreted as a binary-schema
  record, the decoded response record that contains the content-addressed hash. A record of
  the binary schema is read in place: it is the buffer together with the position of its
  root table, which the first four bytes at the buffer's position give as an offset; its
  fields, the hash among them, are read from the buffer at that position. The bytes of the
  buffer are the record's binary encoding.
\<close>

record ResourceHashMessage =
  bb :: ByteBuffer
  bb_pos :: int

definition getRootAsResourceHashMessage :: "ByteBuffer \<Rightarrow> ResourceHashMessage" where
  "getRootAsResourceHashMessage b =
     \<lparr>bb = b, bb_pos = readInt32 b (position b) + int (position b)\<rparr>"

text \<open>
  The service's observables are \<^verbatim>\<open>Observable<any>\<close>: the values that flow through them,
  and into the first argument of \<open>signTransaction\<close>, are dynamically typed.
\<close>

datatype js_any =
    JsUndefined
  | JsString string
  | JsResponse HttpResponse
  | JsResourceHash ResourceHashMessage

text \<open>The transaction announce service is constructed from the base URL and the network.\<close>

datatype NetworkTypes = MAIN_NET | TEST_NET | MIJIN_NET

record RemoteTransactionAnnounceService =
  announceBaseUrl :: string
  announceNetwork :: NetworkTypes

text \<open>
  Everything observable the service does: the \<^verbatim>\<open>console.log\<close> of the text body, the POST
  handed to the transport, and the calls of the two methods of the announce service.
\<close>

datatype event =
    ConsoleLog string
  | HttpPost string string HttpOptions
  | SignTransaction js_any string string MessageType
  | AnnounceTransaction SignedTransaction

text \<open>
  A subscriber is told a value and completion, or an error. A cold observable is what a
  subscription to it does, in order, and what it then tells the subscriber; nothing of it
  happens before the subscription. The observables here come from single HTTP requests, so
  each delivers one notification.
\<close>

datatype 'a notification = Next 'a | Err error

datatype 'a observable = Observable (effects: "event list") (notification: "'a notification")

text \<open>
  The functions the service calls whose behaviour is left open: \<open>Helpers.isJSONString\<close>
  and \<open>Helpers.handleError\<close> (\<^verbatim>\<open>../../utils/helpers\<close>, not among the sources), the built-ins
  \<open>btoa\<close> and \<open>JSON.stringify\<close>, the transport behind \<open>http.post\<close>, and the two methods of
  \<open>RemoteTransactionAnnounceService\<close>. Each may throw where JavaScript lets it; \<open>post\<close> is
  the outcome of the request, \<open>handleError\<close> and \<open>announceTransaction\<close> what the observable
  they return delivers.
\<close>

record collaborators =
  isJSONString :: "string nullable \<Rightarrow> bool"
  btoa :: "js_string \<Rightarrow> error + js_string"
  stringifyText :: "UploadTextRequest \<Rightarrow> string"
  stringifyBinary :: "UploadBinaryRequest \<Rightarrow> string"
  post :: "string \<Rightarrow> string \<Rightarrow> HttpOptions \<Rightarrow> error + HttpResponse"
  handleError :: "error \<Rightarrow> js_any notification"
  signTransaction ::
    "RemoteTransactionAnnounceService \<Rightarrow> js_any \<Rightarrow> string \<Rightarrow> string \<Rightarrow> MessageType
       \<Rightarrow> error + SignedTransaction"
  announceTransaction ::
    "RemoteTransactionAnnounceService \<Rightarrow> SignedTransaction \<Rightarrow> NemAnnounceResult notification"

section \<open>The reactive operators the service pipes through\<close>

text \<open>\<^verbatim>\<open>http.post(endpoint, body, options)\<close> with \<^verbatim>\<open>observe: 'response'\<close>.\<close>

definition http_post ::
  "collaborators \<Rightarrow> string \<Rightarrow> string \<Rightarrow> HttpOptions \<Rightarrow> js_any observable" where
  "http_post env endpoint bodyData opts =
     Observable [HttpPost endpoint bodyData opts]
       (case post env endpoint bodyData opts of
          Inl e \<Rightarrow> Err e
        | Inr res \<Rightarrow> Next (JsResponse res))"

text \<open>\<open>map\<close>: the projection is applied to the value; what it throws becomes the error.\<close>

definition map_op :: "('a \<Rightarrow> error + 'b) \<Rightarrow> 'a observable \<Rightarrow> 'b observable" where
  "map_op f src =
     (case notification src of
        Next v \<Rightarrow>
          (case f v of
             Inl e \<Rightarrow> Observable (effects src) (Err e)
           | Inr w \<Rightarrow> Observable (effects src) (Next w))
      | Err e \<Rightarrow> Observable (effects src) (Err e))"

text \<open>\<open>catchError\<close>: an error is replaced by what the selector's observable delivers.\<close>

definition catchError :: "(error \<Rightarrow> 'a notification) \<Rightarrow> 'a observable \<Rightarrow> 'a observable" where
  "catchError selector src =
     (case notification src of
        Next v \<Rightarrow> src
      | Err e \<Rightarrow> Observable (effects src) (selector e))"

text \<open>
  \<open>switchMap\<close>: the projection runs on the value (its own calls are effects), and the
  observable it returns is subscribed to; an error of the source skips the projection.
\<close>

definition switchMap ::
  "('a \<Rightarrow> event list \<times> (error + 'b observable)) \<Rightarrow> 'a observable \<Rightarrow> 'b observable" where
  "switchMap project src =
     (case notification src of
        Next v \<Rightarrow>
          (case project v of
             (evs, Inl e) \<Rightarrow> Observable (effects src @ evs) (Err e)
           | (evs, Inr inner) \<Rightarrow>
               Observable (effects src @ evs @ effects inner) (notification inner))
      | Err e \<Rightarrow> Observable (effects src) (Err e))"

section \<open>RemoteUploadService\<close>

record RemoteUploadService =
  baseUrl :: string
  nemNetwork :: NetworkTypes
  announceService :: RemoteTransactionAnnounceService

text \<open>
  The constructor: an injected base URL or network replaces the default when it is truthy
  (a non-empty string; every network type is a non-zero number).
\<close>

definition RemoteUploadService_new ::
  "string nullable \<Rightarrow> NetworkTypes nullable \<Rightarrow> RemoteUploadService" where
  "RemoteUploadService_new injectedUrl injectedNetwork =
     (let url = (case injectedUrl of
                   Val u \<Rightarrow> if u = [] then ''https://testnet2.gateway.proximax.io/'' else u
                 | _ \<Rightarrow> ''https://testnet2.gateway.proximax.io/'');
          net = (case injectedNetwork of Val n \<Rightarrow> n | _ \<Rightarrow> TEST_NET)
      in \<lparr>baseUrl = url, nemNetwork = net,
          announceService = \<lparr>announceBaseUrl = url, announceNetwork = net\<rparr>\<rparr>)"

definition uploadOptions :: HttpOptions where
  "uploadOptions =
     \<lparr>responseType = ''text'',
      headers = [(''Content-Type'', ''application/json''), (''Accept'', ''*/*'')],
      observe = ''response'',
      reportProgress = True\<rparr>"

text \<open>
  The projection both upload functions hand to \<open>map\<close>: base64-decode the body, wrap the
  bytes in a buffer, read the root record.
\<close>

definition resourceHashOfResponse :: "js_any \<Rightarrow> error + js_any" where
  "resourceHashOfResponse res =
     (case res of
        JsResponse r \<Rightarrow>
          (let decoded = decode (body r);
               dataBuffer = ByteBuffer_new decoded;
               resourceHash = getRootAsResourceHashMessage dataBuffer
           in Inr (JsResourceHash resourceHash))
      | _ \<Rightarrow> Inl (TypeError ''body''))"

text \<open>
  A call returns the caller's payload object as the call leaves it, what the call did
  before returning, and the error it threw or the observable it returned.
\<close>

type_synonym ('p, 'a) call = "'p nullable \<times> event list \<times> (error + 'a observable)"

definition uploadTextToIPFS ::
  "RemoteUploadService \<Rightarrow> collaborators \<Rightarrow> UploadTextRequest nullable \<Rightarrow> bool
     \<Rightarrow> (UploadTextRequest, js_any) call" where
  "uploadTextToIPFS this env payload returnHash =
     (let endpoint = baseUrl this @ ''upload/text'' in
      case payload of
        Null \<Rightarrow> (payload, [], Inl (Error ''The request payload could not be null''))
      | Undefined \<Rightarrow> (payload, [], Inl (TypeError ''text''))
      | Val p \<Rightarrow>
          (case text' p of
             Null \<Rightarrow> (payload, [], Inl (Error ''The request payload 'text' field is required''))
           | Undefined \<Rightarrow>
               (payload, [], Inl (Error ''The request payload 'text' field is required''))
           | Val t \<Rightarrow>
               if t = [] then
                 (payload, [], Inl (Error ''The request payload 'text' field is required''))
               else if \<not> isJSONString env (metadata p) then
                 (payload, [],
                  Inl (Error ''The request payload 'metadata' field must be a valid JSON''))
               else
                 (case btoa env t of
                    Inl e \<Rightarrow> (payload, [], Inl e)
                  | Inr encodedData \<Rightarrow>
                      let p' = p\<lparr>text' := Val encodedData\<rparr>;
                          bodyData = stringifyText env p'
                      in (Val p', [ConsoleLog bodyData],
                          Inr (if \<not> returnHash then http_post env endpoint bodyData uploadOptions
                               else catchError (handleError env)
                                      (map_op resourceHashOfResponse
                                         (http_post env endpoint bodyData uploadOptions)))))))"

definition uploadBinaryToIPFS ::
  "RemoteUploadService \<Rightarrow> collaborators \<Rightarrow> UploadBinaryRequest nullable \<Rightarrow> bool
     \<Rightarrow> (UploadBinaryRequest, js_any) call" where
  "uploadBinaryToIPFS this env payload returnHash =
     (let endpoint = baseUrl this @ ''upload/bytes/binary'' in
      case payload of
        Null \<Rightarrow> (payload, [], Inl (Error ''The request payload could not be null''))
      | Undefined \<Rightarrow> (payload, [], Inl (TypeError ''data''))
      | Val p \<Rightarrow>
          if data p = Null then
            (payload, [], Inl (Error ''The request payload 'data' field is required''))
          else if \<not> isJSONString env (metadataB p) then
            (payload, [],
             Inl (Error ''The request payload 'metadata' field must be a valid JSON''))
          else
            (let bodyData = stringifyBinary env p
             in (payload, [],
                 Inr (if \<not> returnHash then http_post env endpoint bodyData uploadOptions
                      else catchError (handleError env)
                             (map_op resourceHashOfResponse
                                (http_post env endpoint bodyData uploadOptions))))))"

text \<open>\<^verbatim>\<open>rhm.body\<close> on a dynamically typed value.\<close>

definition body_of :: "js_any \<Rightarrow> error + js_any" where
  "body_of v =
     (case v of
        JsUndefined \<Rightarrow> Inl (TypeError ''body'')
      | JsResponse r \<Rightarrow> Inr (JsString (body r))
      | _ \<Rightarrow> Inr JsUndefined)"

text \<open>
  The two calls in the projection that \<open>uploadText\<close> and \<open>uploadBinary\<close> hand to
  \<open>switchMap\<close>, once the arguments are evaluated: sign the content, announce the result.
\<close>

definition signAndAnnounce ::
  "collaborators \<Rightarrow> RemoteTransactionAnnounceService \<Rightarrow> js_any \<Rightarrow> string \<Rightarrow> string
     \<Rightarrow> MessageType \<Rightarrow> event list \<times> (error + NemAnnounceResult observable)" where
  "signAndAnnounce env service content pvkey pubkey mtype =
     (case signTransaction env service content pvkey pubkey mtype of
        Inl e \<Rightarrow> ([SignTransaction content pvkey pubkey mtype], Inl e)
      | Inr signTransaction' \<Rightarrow>
          ([SignTransaction content pvkey pubkey mtype, AnnounceTransaction signTransaction'],
           Inr (Observable [] (announceTransaction env service signTransaction'))))"

text \<open>
  The arguments of \<open>signTransaction\<close> are read in the order they are written: \<open>rhm.body\<close>,
  then the three fields of the payload object.
\<close>

definition uploadText ::
  "RemoteUploadService \<Rightarrow> collaborators \<Rightarrow> UploadTextRequest nullable
     \<Rightarrow> (UploadTextRequest, NemAnnounceResult) call" where
  "uploadText this env payload =
     (case uploadTextToIPFS this env payload False of
        (payload', evs, Inl e) \<Rightarrow> (payload', evs, Inl e)
      | (payload', evs, Inr upload) \<Rightarrow>
          (payload', evs,
           Inr (switchMap
                  (\<lambda>rhm. case body_of rhm of
                           Inl e \<Rightarrow> ([], Inl e)
                         | Inr content \<Rightarrow>
                             (case payload' of
                                Val p \<Rightarrow>
                                  signAndAnnounce env (announceService this) content
                                    (senderPrivateKey p) (recieverPublicKey p) (messageType p)
                              | _ \<Rightarrow> ([], Inl (TypeError ''senderPrivateKey''))))
                  upload)))"

definition uploadTextToIFPSOnly ::
  "RemoteUploadService \<Rightarrow> collaborators \<Rightarrow> UploadTextRequest nullable
     \<Rightarrow> (UploadTextRequest, js_any) call" where
  "uploadTextToIFPSOnly this env payload = uploadTextToIPFS this env payload True"

definition uploadBinary ::
  "RemoteUploadService \<Rightarrow> collaborators \<Rightarrow> UploadBinaryRequest nullable
     \<Rightarrow> (UploadBinaryRequest, NemAnnounceResult) call" where
  "uploadBinary this env payload =
     (let trxService = \<lparr>announceBaseUrl = baseUrl this, announceNetwork = nemNetwork this\<rparr> in
      case uploadBinaryToIPFS this env payload False of
        (payload', evs, Inl e) \<Rightarrow> (payload', evs, Inl e)
      | (payload', evs, Inr upload) \<Rightarrow>
          (payload', evs,
           Inr (switchMap
                  (\<lambda>rhm. case body_of rhm of
                           Inl e \<Rightarrow> ([], Inl e)
                         | Inr content \<Rightarrow>
                             (case payload' of
                                Val p \<Rightarrow>
                                  signAndAnnounce env trxService content
                                    (senderPrivateKeyB p) (recieverPublicKeyB p) (messageTypeB p)
                              | _ \<Rightarrow> ([], Inl (TypeError ''senderPrivateKey''))))
                  upload)))"

definition uploadBinaryToIPFSOnly ::
  "RemoteUploadService \<Rightarrow> collaborators \<Rightarrow> UploadBinaryRequest nullable
     \<Rightarrow> (UploadBinaryRequest, js_any) call" where
  "uploadBinaryToIPFSOnly this env payload = uploadBinaryToIPFS this env payload True"

section \<open>Executions\<close>

text \<open>
  An execution is a call followed, when the call returned, by one subscription to the
  observable it returned. It leaves the payload object, everything done in order, and the
  outcome: the error thrown by the call, or what the subscriber was told.
\<close>

datatype 'a outcome = Thrown error | Told "'a notification"

definition execute :: "('p, 'a) call \<Rightarrow> 'p nullable \<times> event list \<times> 'a outcome" where
  "execute c =
     (case c of
        (payload', evs, Inl e) \<Rightarrow> (payload', evs, Thrown e)
      | (payload', evs, Inr obs) \<Rightarrow> (payload', evs @ effects obs, Told (notification obs)))"

text \<open>The events that are calls of the transaction announce service.\<close>

fun announceServiceCall :: "event \<Rightarrow> bool" where
  "announceServiceCall (SignTransaction content pvkey pubkey mtype) = True"
| "announceServiceCall (AnnounceTransaction tx) = True"
| "announceServiceCall (ConsoleLog line) = False"
| "announceServiceCall (HttpPost endpoint bodyData opts) = False"

section \<open>A concrete service, collaborators and requests\<close>

text \<open>
  A service built with nothing injected, and collaborators to run it with. \<open>btoa\<close> is the
  built-in. The JSON check lets a request without metadata pass (metadata null, undefined
  or empty), accepts the JSON text \<open>{}\<close> and rejects any other text. The gateway answers
  every body but \<open>{}\<close> with the base64 text \<open>BAAAAA==\<close> of the bytes 4, 0, 0, 0.
\<close>

definition sampleService :: RemoteUploadService where
  "sampleService = RemoteUploadService_new Undefined Undefined"

definition sampleCollaborators :: collaborators where
  "sampleCollaborators =
     \<lparr>isJSONString =
        (\<lambda>m. case m of Null \<Rightarrow> True | Undefined \<Rightarrow> True | Val s \<Rightarrow> s = [] \<or> s = ''{}''),
      btoa = btoa_builtin,
      stringifyText =
        (\<lambda>p. case text' p of
               Val t \<Rightarrow> ''{text:'' @ map (\<lambda>u. char_of (unat u)) t @ ''}''
             | _ \<Rightarrow> ''{}''),
      stringifyBinary =
        (\<lambda>p. case data p of
               Val d \<Rightarrow> ''{data:['' @ replicate (length d) CHR ''x'' @ '']}''
             | _ \<Rightarrow> ''{}''),
      post = (\<lambda>endpoint b opts.
                if b = ''{}'' then Inl (HttpErrorResponse 400)
                else Inr \<lparr>body = ''BAAAAA=='', status = 200\<rparr>),
      handleError = (\<lambda>e. Err e),
      signTransaction =
        (\<lambda>svc content pvkey pubkey mtype.
           case content of
             JsString s \<Rightarrow> Inr (SignedTransaction (s @ pvkey))
           | _ \<Rightarrow> Inl (TypeError ''sign'')),
      announceTransaction =
        (\<lambda>svc tx.
           Next \<lparr>type = Validation, code = 1, message = ''SUCCESS'',
                 transactionHash = ''aa'', innerTransactionHash = []\<rparr>)\<rparr>"

definition sampleText :: UploadTextRequest where
  "sampleText =
     \<lparr>text' = Val (codeUnits ''hi''), metadata = Val ''{}'', senderPrivateKey = ''k1'',
      recieverPublicKey = ''k2'', messageType = PLAIN\<rparr>"

definition sampleBinary :: UploadBinaryRequest where
  "sampleBinary =
     \<lparr>data = Val [7], metadataB = Val ''{}'', senderPrivateKeyB = ''k1'',
      recieverPublicKeyB = ''k2'', messageTypeB = SECURE\<rparr>"

section \<open>Base64 decoding undoes base64 encoding\<close>

















section \<open>What the two upload functions return\<close>

lemma uploadTextToIPFS_null:
  "uploadTextToIPFS this env Null rh =
     (Null, [], Inl (Error ''The request payload could not be null''))"
  by (simp add: uploadTextToIPFS_def)

lemma uploadTextToIPFS_undefined:
  "uploadTextToIPFS this env Undefined rh = (Undefined, [], Inl (TypeError ''text''))"
  by (simp add: uploadTextToIPFS_def)

lemma uploadTextToIPFS_no_text:
  "text' p = Null \<or> text' p = Undefined \<or> text' p = Val [] \<Longrightarrow>
   uploadTextToIPFS this env (Val p) rh =
     (Val p, [], Inl (Error ''The request payload 'text' field is required''))"
  by (auto simp: uploadTextToIPFS_def)

lemma uploadTextToIPFS_bad_metadata:
  "text' p = Val t \<Longrightarrow> t \<noteq> [] \<Longrightarrow> \<not> isJSONString env (metadata p) \<Longrightarrow>
   uploadTextToIPFS this env (Val p) rh =
     (Val p, [], Inl (Error ''The request payload 'metadata' field must be a valid JSON''))"
  by (simp add: uploadTextToIPFS_def)

lemma uploadTextToIPFS_btoa_throws:
  "text' p = Val t \<Longrightarrow> t \<noteq> [] \<Longrightarrow> isJSONString env (metadata p) \<Longrightarrow> btoa env t = Inl e \<Longrightarrow>
   uploadTextToIPFS this env (Val p) rh = (Val p, [], Inl e)"
  by (simp add: uploadTextToIPFS_def)

lemma uploadTextToIPFS_valid:
  "text' p = Val t \<Longrightarrow> t \<noteq> [] \<Longrightarrow> isJSONString env (metadata p) \<Longrightarrow> btoa env t = Inr enc \<Longrightarrow>
   uploadTextToIPFS this env (Val p) rh =
     (Val (p\<lparr>text' := Val enc\<rparr>),
      [ConsoleLog (stringifyText env (p\<lparr>text' := Val enc\<rparr>))],
      Inr (if \<not> rh
           then http_post env (baseUrl this @ ''upload/text'')
                  (stringifyText env (p\<lparr>text' := Val enc\<rparr>)) uploadOptions
           else catchError (handleError env)
                  (map_op resourceHashOfResponse
                     (http_post env (baseUrl this @ ''upload/text'')
                        (stringifyText env (p\<lparr>text' := Val enc\<rparr>)) uploadOptions))))"
  by (simp add: uploadTextToIPFS_def Let_def)

lemma uploadBinaryToIPFS_null:
  "uploadBinaryToIPFS this env Null rh =
     (Null, [], Inl (Error ''The request payload could not be null''))"
  by (simp add: uploadBinaryToIPFS_def)

lemma uploadBinaryToIPFS_undefined:
  "uploadBinaryToIPFS this env Undefined rh = (Undefined, [], Inl (TypeError ''data''))"
  by (simp add: uploadBinaryToIPFS_def)

lemma uploadBinaryToIPFS_no_data:
  "data p = Null \<Longrightarrow>
   uploadBinaryToIPFS this env (Val p) rh =
     (Val p, [], Inl (Error ''The request payload 'data' field is required''))"
  by (simp add: uploadBinaryToIPFS_def)

lemma uploadBinaryToIPFS_bad_metadata:
  "data p \<noteq> Null \<Longrightarrow> \<not> isJSONString env (metadataB p) \<Longrightarrow>
   uploadBinaryToIPFS this env (Val p) rh =
     (Val p, [], Inl (Error ''The request payload 'metadata' field must be a valid JSON''))"
  by (simp add: uploadBinaryToIPFS_def)

lemma uploadBinaryToIPFS_valid:
  "data p \<noteq> Null \<Longrightarrow> isJSONString env (metadataB p) \<Longrightarrow>
   uploadBinaryToIPFS this env (Val p) rh =
     (Val p, [],
      Inr (if \<not> rh
           then http_post env (baseUrl this @ ''upload/bytes/binary'') (stringifyBinary env p)
                  uploadOptions
           else catchError (handleError env)
                  (map_op resourceHashOfResponse
                     (http_post env (baseUrl this @ ''upload/bytes/binary'')
                        (stringifyBinary env p) uploadOptions))))"
  by (simp add: uploadBinaryToIPFS_def Let_def)

subsection \<open>The operators on a POST\<close>

lemma effects_http_post: "effects (http_post env ep b opts) = [HttpPost ep b opts]"
  by (simp add: http_post_def)


lemma effects_map_op: "effects (map_op f src) = effects src"
  by (simp add: map_op_def split: notification.splits sum.splits)

lemma effects_catchError: "effects (catchError h src) = effects src"
  by (simp add: catchError_def split: notification.splits)

lemma notification_decoded:
  "notification (catchError (handleError env)
      (map_op resourceHashOfResponse (http_post env ep b opts))) =
     (case post env ep b opts of
        Inl e \<Rightarrow> handleError env e
      | Inr res \<Rightarrow>
          Next (JsResourceHash
                  (getRootAsResourceHashMessage (ByteBuffer_new (decode (body res))))))"
  by (simp add: catchError_def map_op_def http_post_def resourceHashOfResponse_def
      split: sum.splits)

lemma effects_sign_announce:
  assumes "\<And>res. project (JsResponse res) =
             signAndAnnounce env svc (JsString (body res)) k1 k2 mt"
  shows "effects (switchMap project (http_post env ep b opts)) =
     HttpPost ep b opts #
       (case post env ep b opts of
          Inl e \<Rightarrow> []
        | Inr res \<Rightarrow>
            SignTransaction (JsString (body res)) k1 k2 mt #
              (case signTransaction env svc (JsString (body res)) k1 k2 mt of
                 Inl e \<Rightarrow> []
               | Inr s \<Rightarrow> [AnnounceTransaction s]))"
  by (simp add: switchMap_def assms signAndAnnounce_def http_post_def split: sum.splits)

lemma notification_sign_announce:
  assumes "\<And>res. project (JsResponse res) =
             signAndAnnounce env svc (JsString (body res)) k1 k2 mt"
  shows "notification (switchMap project (http_post env ep b opts)) =
     (case post env ep b opts of
        Inl e \<Rightarrow> Err e
      | Inr res \<Rightarrow>
          (case signTransaction env svc (JsString (body res)) k1 k2 mt of
             Inl e \<Rightarrow> Err e
           | Inr s \<Rightarrow> announceTransaction env svc s))"
  by (simp add: switchMap_def assms signAndAnnounce_def http_post_def split: sum.splits)

subsection \<open>Every call throws before doing anything, or passes validation\<close>

lemma uploadTextToIPFS_cases:
  obtains (thrown) e where "uploadTextToIPFS this env payload rh = (payload, [], Inl e)"
  | (returned) p t enc where "payload = Val p" "text' p = Val t" "t \<noteq> []"
      "isJSONString env (metadata p)" "btoa env t = Inr enc"
proof (cases payload)
  case Null
  then show ?thesis using thrown uploadTextToIPFS_null by blast
next
  case Undefined
  then show ?thesis using thrown uploadTextToIPFS_undefined by blast
next
  case (Val p)
  show ?thesis
  proof (cases "text' p = Null \<or> text' p = Undefined \<or> text' p = Val []")
    case True
    then show ?thesis
      using thrown Val uploadTextToIPFS_no_text [of p this env rh] by blast
  next
    case False
    then obtain t where t: "text' p = Val t" "t \<noteq> []"
      by (cases "text' p") auto
    show ?thesis
    proof (cases "isJSONString env (metadata p)")
      case False
      then show ?thesis
        using thrown Val t uploadTextToIPFS_bad_metadata [of p t env this rh] by blast
    next
      case True
      show ?thesis
      proof (cases "btoa env t")
        case (Inl e)
        then show ?thesis
          using thrown Val t True uploadTextToIPFS_btoa_throws [of p t env e this rh] by blast
      next
        case (Inr enc)
        then show ?thesis
          using returned Val t True by blast
      qed
    qed
  qed
qed

lemma uploadBinaryToIPFS_cases:
  obtains (thrown) e where "uploadBinaryToIPFS this env payload rh = (payload, [], Inl e)"
  | (returned) p where "payload = Val p" "data p \<noteq> Null" "isJSONString env (metadataB p)"
proof (cases payload)
  case Null
  then show ?thesis using thrown uploadBinaryToIPFS_null by blast
next
  case Undefined
  then show ?thesis using thrown uploadBinaryToIPFS_undefined by blast
next
  case (Val p)
  show ?thesis
  proof (cases "data p = Null")
    case True
    then show ?thesis
      using thrown Val uploadBinaryToIPFS_no_data [of p this env rh] by blast
  next
    case False
    show ?thesis
    proof (cases "isJSONString env (metadataB p)")
      case True
      then show ?thesis using returned Val False by blast
    next
      case bad: False
      then show ?thesis
        using thrown Val False uploadBinaryToIPFS_bad_metadata [of p env this rh] by blast
    qed
  qed
qed

subsection \<open>The executions of the public operations\<close>

lemma execute_thrown_text:
  "uploadTextToIPFS this env payload False = (payload, [], Inl e) \<Longrightarrow>
   execute (uploadText this env payload) = (payload, [], Thrown e)"
  "uploadTextToIPFS this env payload True = (payload, [], Inl e) \<Longrightarrow>
   execute (uploadTextToIFPSOnly this env payload) = (payload, [], Thrown e)"
  by (simp_all add: execute_def uploadText_def uploadTextToIFPSOnly_def)

lemma execute_thrown_binary:
  "uploadBinaryToIPFS this env payload False = (payload, [], Inl e) \<Longrightarrow>
   execute (uploadBinary this env payload) = (payload, [], Thrown e)"
  "uploadBinaryToIPFS this env payload True = (payload, [], Inl e) \<Longrightarrow>
   execute (uploadBinaryToIPFSOnly this env payload) = (payload, [], Thrown e)"
  by (simp_all add: execute_def uploadBinary_def uploadBinaryToIPFSOnly_def)

lemma execute_uploadText_valid:
  assumes "text' p = Val t" "t \<noteq> []" "isJSONString env (metadata p)" "btoa env t = Inr enc"
  shows "execute (uploadText this env (Val p)) =
    (Val (p\<lparr>text' := Val enc\<rparr>),
     ConsoleLog (stringifyText env (p\<lparr>text' := Val enc\<rparr>)) #
     HttpPost (baseUrl this @ ''upload/text'') (stringifyText env (p\<lparr>text' := Val enc\<rparr>))
       uploadOptions #
     (case post env (baseUrl this @ ''upload/text'') (stringifyText env (p\<lparr>text' := Val enc\<rparr>))
             uploadOptions of
        Inl e \<Rightarrow> []
      | Inr res \<Rightarrow>
          SignTransaction (JsString (body res)) (senderPrivateKey p) (recieverPublicKey p)
            (messageType p) #
          (case signTransaction env (announceService this) (JsString (body res))
                  (senderPrivateKey p) (recieverPublicKey p) (messageType p) of
             Inl e \<Rightarrow> []
           | Inr s \<Rightarrow> [AnnounceTransaction s])),
     Told (case post env (baseUrl this @ ''upload/text'')
                  (stringifyText env (p\<lparr>text' := Val enc\<rparr>)) uploadOptions of
             Inl e \<Rightarrow> Err e
           | Inr res \<Rightarrow>
               (case signTransaction env (announceService this) (JsString (body res))
                       (senderPrivateKey p) (recieverPublicKey p) (messageType p) of
                  Inl e \<Rightarrow> Err e
                | Inr s \<Rightarrow> announceTransaction env (announceService this) s)))"
proof -
  let ?project = "\<lambda>rhm. case body_of rhm of
      Inl e \<Rightarrow> ([], Inl e)
    | Inr content \<Rightarrow>
        (case Val (p\<lparr>text' := Val enc\<rparr>) of
           Val p \<Rightarrow>
             signAndAnnounce env (announceService this) content (senderPrivateKey p)
               (recieverPublicKey p) (messageType p)
         | _ \<Rightarrow> ([], Inl (TypeError ''senderPrivateKey'')))"
  have project: "?project (JsResponse res) =
      signAndAnnounce env (announceService this) (JsString (body res)) (senderPrivateKey p)
        (recieverPublicKey p) (messageType p)" for res
    by (simp add: body_of_def)
  show ?thesis
    by (simp add: execute_def uploadText_def uploadTextToIPFS_valid [OF assms]
        effects_sign_announce [of ?project, OF project]
        notification_sign_announce [of ?project, OF project])
qed

lemma execute_uploadTextToIFPSOnly_valid:
  assumes "text' p = Val t" "t \<noteq> []" "isJSONString env (metadata p)" "btoa env t = Inr enc"
  shows "execute (uploadTextToIFPSOnly this env (Val p)) =
    (Val (p\<lparr>text' := Val enc\<rparr>),
     [ConsoleLog (stringifyText env (p\<lparr>text' := Val enc\<rparr>)),
      HttpPost (baseUrl this @ ''upload/text'') (stringifyText env (p\<lparr>text' := Val enc\<rparr>))
        uploadOptions],
     Told (notification (catchError (handleError env)
       (map_op resourceHashOfResponse
          (http_post env (baseUrl this @ ''upload/text'')
             (stringifyText env (p\<lparr>text' := Val enc\<rparr>)) uploadOptions)))))"
  by (simp add: execute_def uploadTextToIFPSOnly_def uploadTextToIPFS_valid [OF assms]
      effects_catchError effects_map_op effects_http_post)

lemma execute_uploadBinary_valid:
  assumes "data p \<noteq> Null" "isJSONString env (metadataB p)"
  shows "execute (uploadBinary this env (Val p)) =
    (Val p,
     HttpPost (baseUrl this @ ''upload/bytes/binary'') (stringifyBinary env p) uploadOptions #
     (case post env (baseUrl this @ ''upload/bytes/binary'') (stringifyBinary env p)
             uploadOptions of
        Inl e \<Rightarrow> []
      | Inr res \<Rightarrow>
          SignTransaction (JsString (body res)) (senderPrivateKeyB p) (recieverPublicKeyB p)
            (messageTypeB p) #
          (case signTransaction env
                  \<lparr>announceBaseUrl = baseUrl this, announceNetwork = nemNetwork this\<rparr>
                  (JsString (body res)) (senderPrivateKeyB p) (recieverPublicKeyB p)
                  (messageTypeB p) of
             Inl e \<Rightarrow> []
           | Inr s \<Rightarrow> [AnnounceTransaction s])),
     Told (case post env (baseUrl this @ ''upload/bytes/binary'') (stringifyBinary env p)
                  uploadOptions of
             Inl e \<Rightarrow> Err e
           | Inr res \<Rightarrow>
               (case signTransaction env
                       \<lparr>announceBaseUrl = baseUrl this, announceNetwork = nemNetwork this\<rparr>
                       (JsString (body res)) (senderPrivateKeyB p) (recieverPublicKeyB p)
                       (messageTypeB p) of
                  Inl e \<Rightarrow> Err e
                | Inr s \<Rightarrow>
                    announceTransaction env
                      \<lparr>announceBaseUrl = baseUrl this, announceNetwork = nemNetwork this\<rparr> s)))"
proof -
  let ?svc = "\<lparr>announceBaseUrl = baseUrl this, announceNetwork = nemNetwork this\<rparr>"
  let ?project = "\<lambda>rhm. case body_of rhm of
      Inl e \<Rightarrow> ([], Inl e)
    | Inr content \<Rightarrow>
        (case Val p of
           Val p \<Rightarrow>
             signAndAnnounce env ?svc content (senderPrivateKeyB p) (recieverPublicKeyB p)
               (messageTypeB p)
         | _ \<Rightarrow> ([], Inl (TypeError ''senderPrivateKey'')))"
  have project: "?project (JsResponse res) =
      signAndAnnounce env ?svc (JsString (body res)) (senderPrivateKeyB p)
        (recieverPublicKeyB p) (messageTypeB p)" for res
    by (simp add: body_of_def)
  show ?thesis
    by (simp add: execute_def uploadBinary_def uploadBinaryToIPFS_valid [OF assms]
        effects_sign_announce [of ?project, OF project]
        notification_sign_announce [of ?project, OF project])
qed

lemma execute_uploadBinaryToIPFSOnly_valid:
  assumes "data p \<noteq> Null" "isJSONString env (metadataB p)"
  shows "execute (uploadBinaryToIPFSOnly this env (Val p)) =
    (Val p,
     [HttpPost (baseUrl this @ ''upload/bytes/binary'') (stringifyBinary env p) uploadOptions],
     Told (notification (catchError (handleError env)
       (map_op resourceHashOfResponse
          (http_post env (baseUrl this @ ''upload/bytes/binary'') (stringifyBinary env p)
             uploadOptions)))))"
  by (simp add: execute_def uploadBinaryToIPFSOnly_def uploadBinaryToIPFS_valid [OF assms]
      effects_catchError effects_map_op effects_http_post)

subsection \<open>The concrete service and collaborators\<close>

lemma sampleService_fields:
  "baseUrl sampleService = ''https://testnet2.gateway.proximax.io/''"
  "nemNetwork sampleService = TEST_NET"
  "announceService sampleService =
     \<lparr>announceBaseUrl = ''https://testnet2.gateway.proximax.io/'', announceNetwork = TEST_NET\<rparr>"
  by (simp_all add: sampleService_def RemoteUploadService_new_def Let_def)

lemma btoa_hi: "btoa_builtin (codeUnits ''hi'') = Inr (codeUnits ''aGk='')"
  by (simp add: btoa_builtin_def codeUnits_def base64_chars_def)

lemma btoa_euro: "btoa_builtin [0x20AC] = Inl (Exception ''InvalidCharacterError'')"
  by (simp add: btoa_builtin_def)

lemma chars_of_codeUnits: "map (\<lambda>u. char_of (unat u)) (codeUnits ''aGk='') = ''aGk=''"
  by code_simp

lemma sampleText_valid:
  "text' sampleText = Val (codeUnits ''hi'')" "codeUnits ''hi'' \<noteq> []"
  "isJSONString sampleCollaborators (metadata sampleText)"
  "btoa sampleCollaborators (codeUnits ''hi'') = Inr (codeUnits ''aGk='')"
  "stringifyText sampleCollaborators (sampleText\<lparr>text' := Val (codeUnits ''aGk='')\<rparr>) =
     ''{text:aGk=}''"
  by (simp_all add: sampleCollaborators_def sampleText_def btoa_hi chars_of_codeUnits)
    (simp add: codeUnits_def)

lemma sampleBinary_valid:
  "data sampleBinary \<noteq> Null" "isJSONString sampleCollaborators (metadataB sampleBinary)"
  "stringifyBinary sampleCollaborators sampleBinary = ''{data:[x]}''"
  by (simp_all add: sampleCollaborators_def sampleBinary_def)

lemma sample_post:
  "b \<noteq> ''{}'' \<Longrightarrow>
   post sampleCollaborators ep b opts = Inr \<lparr>body = ''BAAAAA=='', status = 200\<rparr>"
  by (simp add: sampleCollaborators_def)

lemma sample_sign:
  "signTransaction sampleCollaborators svc (JsString s) k1 k2 mt =
     Inr (SignedTransaction (s @ k1))"
  by (simp add: sampleCollaborators_def)

lemma sample_announce:
  "announceTransaction sampleCollaborators svc s =
     Next \<lparr>type = Validation, code = 1, message = ''SUCCESS'', transactionHash = ''aa'',
           innerTransactionHash = []\<rparr>"
  by (simp add: sampleCollaborators_def)

lemma sample_decode:
  "decode ''BAAAAA=='' = [4, 0, 0, 0]"
  "base64_encode [4, 0, 0, 0] = ''BAAAAA==''"
  "getRootAsResourceHashMessage (ByteBuffer_new [4, 0, 0, 0]) =
     \<lparr>bb = \<lparr>bytes = [4, 0, 0, 0], position = 0\<rparr>, bb_pos = 4\<rparr>"
  by (simp_all add: decode_def bufferLength_def base64_lookup_def base64_chars_def bytes3_def
      getRootAsResourceHashMessage_def ByteBuffer_new_def readInt32_def byteAt_def)

lemma sample_execute_uploadText:
  "execute (uploadText sampleService sampleCollaborators (Val sampleText)) =
     (Val (sampleText\<lparr>text' := Val (codeUnits ''aGk='')\<rparr>),
      [ConsoleLog ''{text:aGk=}'',
       HttpPost ''https://testnet2.gateway.proximax.io/upload/text'' ''{text:aGk=}''
         uploadOptions,
       SignTransaction (JsString ''BAAAAA=='') ''k1'' ''k2'' PLAIN,
       AnnounceTransaction (SignedTransaction ''BAAAAA==k1'')],
      Told (Next \<lparr>type = Validation, code = 1, message = ''SUCCESS'',
                   transactionHash = ''aa'', innerTransactionHash = []\<rparr>))"
proof -
  have keys: "senderPrivateKey sampleText = ''k1''" "recieverPublicKey sampleText = ''k2''"
    "messageType sampleText = PLAIN"
    by (simp_all add: sampleText_def)
  show ?thesis
    by (simp add: execute_uploadText_valid [OF sampleText_valid(1-4)] sampleText_valid(5)
        sampleService_fields sample_post sample_sign sample_announce keys)
qed

lemma sample_execute_uploadBinary:
  "execute (uploadBinary sampleService sampleCollaborators (Val sampleBinary)) =
     (Val sampleBinary,
      [HttpPost ''https://testnet2.gateway.proximax.io/upload/bytes/binary'' ''{data:[x]}''
         uploadOptions,
       SignTransaction (JsString ''BAAAAA=='') ''k1'' ''k2'' SECURE,
       AnnounceTransaction (SignedTransaction ''BAAAAA==k1'')],
      Told (Next \<lparr>type = Validation, code = 1, message = ''SUCCESS'',
                   transactionHash = ''aa'', innerTransactionHash = []\<rparr>))"
proof -
  have keys: "senderPrivateKeyB sampleBinary = ''k1''" "recieverPublicKeyB sampleBinary = ''k2''"
    "messageTypeB sampleBinary = SECURE"
    by (simp_all add: sampleBinary_def)
  show ?thesis
    by (simp add: execute_uploadBinary_valid [OF sampleBinary_valid(1-2)] sampleBinary_valid(3)
        sampleService_fields sample_post sample_sign sample_announce keys)
qed

lemma sample_execute_uploadTextToIFPSOnly:
  "execute (uploadTextToIFPSOnly sampleService sampleCollaborators (Val sampleText)) =
     (Val (sampleText\<lparr>text' := Val (codeUnits ''aGk='')\<rparr>),
      [ConsoleLog ''{text:aGk=}'',
       HttpPost ''https://testnet2.gateway.proximax.io/upload/text'' ''{text:aGk=}''
         uploadOptions],
      Told (Next (JsResourceHash
        \<lparr>bb = \<lparr>bytes = [4, 0, 0, 0], position = 0\<rparr>, bb_pos = 4\<rparr>)))"
  by (simp add: execute_uploadTextToIFPSOnly_valid [OF sampleText_valid(1-4)]
      sampleText_valid(5) notification_decoded sampleService_fields sample_post sample_decode)

lemma sample_execute_uploadBinaryToIPFSOnly:
  "execute (uploadBinaryToIPFSOnly sampleService sampleCollaborators (Val sampleBinary)) =
     (Val sampleBinary,
      [HttpPost ''https://testnet2.gateway.proximax.io/upload/bytes/binary'' ''{data:[x]}''
         uploadOptions],
      Told (Next (JsResourceHash
        \<lparr>bb = \<lparr>bytes = [4, 0, 0, 0], position = 0\<rparr>, bb_pos = 4\<rparr>)))"
  by (simp add: execute_uploadBinaryToIPFSOnly_valid [OF sampleBinary_valid(1-2)]
      sampleBinary_valid(3) notification_decoded sampleService_fields sample_post sample_decode)

section \<open>Validation\<close>

text \<open>
  Claim C1. An upload request with a missing required field is rejected by the call itself:
  a null payload in \<open>uploadText\<close>, \<open>uploadBinary\<close> and the two storage-only variants, a
  null or undefined (absent) \<open>text\<close> field in the text uploads, a null \<open>data\<close> field in the
  binary uploads. The call throws the validation error, returns no observable, and has done
  nothing by then: no POST was handed to the transport.
\<close>

theorem missing_required_field_throws:
  "(execute (uploadText this env Null) =
      (Null, [], Thrown (Error ''The request payload could not be null''))
    \<and> execute (uploadTextToIFPSOnly this env Null) =
      (Null, [], Thrown (Error ''The request payload could not be null''))
    \<and> execute (uploadBinary this env Null) =
      (Null, [], Thrown (Error ''The request payload could not be null''))
    \<and> execute (uploadBinaryToIPFSOnly this env Null) =
      (Null, [], Thrown (Error ''The request payload could not be null'')))
   \<and> (text' p = Null \<or> text' p = Undefined \<longrightarrow>
        execute (uploadText this env (Val p)) =
          (Val p, [], Thrown (Error ''The request payload 'text' field is required''))
        \<and> execute (uploadTextToIFPSOnly this env (Val p)) =
          (Val p, [], Thrown (Error ''The request payload 'text' field is required'')))
   \<and> (data q = Null \<longrightarrow>
        execute (uploadBinary this env (Val q)) =
          (Val q, [], Thrown (Error ''The request payload 'data' field is required''))
        \<and> execute (uploadBinaryToIPFSOnly this env (Val q)) =
          (Val q, [], Thrown (Error ''The request payload 'data' field is required'')))"
proof -
  have nulls: "uploadTextToIPFS this env Null rh =
      (Null, [], Inl (Error ''The request payload could not be null''))"
    "uploadBinaryToIPFS this env Null rh =
      (Null, [], Inl (Error ''The request payload could not be null''))" for rh
    by (rule uploadTextToIPFS_null, rule uploadBinaryToIPFS_null)
  have notext: "uploadTextToIPFS this env (Val p) rh =
      (Val p, [], Inl (Error ''The request payload 'text' field is required''))"
    if "text' p = Null \<or> text' p = Undefined" for rh
    using that uploadTextToIPFS_no_text [of p this env rh] by blast
  have nodata: "uploadBinaryToIPFS this env (Val q) rh =
      (Val q, [], Inl (Error ''The request payload 'data' field is required''))"
    if "data q = Null" for rh
    using that by (rule uploadBinaryToIPFS_no_data)
  show ?thesis
    by (simp add: execute_def uploadText_def uploadTextToIFPSOnly_def uploadBinary_def
        uploadBinaryToIPFSOnly_def nulls notext nodata)
qed

theorem missing_required_field_throws_witness:
  "text' (sampleText\<lparr>text' := Undefined\<rparr>) = Undefined
   \<and> data (sampleBinary\<lparr>data := Null\<rparr>) = Null
   \<and> execute (uploadText sampleService sampleCollaborators
         (Val (sampleText\<lparr>text' := Undefined\<rparr>))) =
       (Val (sampleText\<lparr>text' := Undefined\<rparr>), [],
        Thrown (Error ''The request payload 'text' field is required''))
   \<and> execute (uploadBinaryToIPFSOnly sampleService sampleCollaborators
         (Val (sampleBinary\<lparr>data := Null\<rparr>))) =
       (Val (sampleBinary\<lparr>data := Null\<rparr>), [],
        Thrown (Error ''The request payload 'data' field is required''))"
  using missing_required_field_throws
    [of sampleService sampleCollaborators "sampleText\<lparr>text' := Undefined\<rparr>"
        "sampleBinary\<lparr>data := Null\<rparr>"]
  by simp




text \<open>
  Claim C10. The required-field check is not the same on the two sides. A text upload
  whose \<open>text\<close> is the empty string is rejected with the required-field error. A binary
  upload is rejected with the required-field error exactly when \<open>data\<close> is \<open>null\<close>: with an
  undefined \<open>data\<close> the call goes on to the metadata check, and with valid metadata the
  request is posted.
\<close>

theorem required_field_check_asymmetric:
  "(text' p = Val [] \<longrightarrow>
      execute (uploadText this env (Val p)) =
        (Val p, [], Thrown (Error ''The request payload 'text' field is required''))
      \<and> execute (uploadTextToIFPSOnly this env (Val p)) =
        (Val p, [], Thrown (Error ''The request payload 'text' field is required'')))
   \<and> (data q = Undefined \<and> isJSONString env (metadataB q) \<longrightarrow>
      fst (snd (execute (uploadBinaryToIPFSOnly this env (Val q)))) =
        [HttpPost (baseUrl this @ ''upload/bytes/binary'') (stringifyBinary env q) uploadOptions]
      \<and> take 1 (fst (snd (execute (uploadBinary this env (Val q))))) =
        [HttpPost (baseUrl this @ ''upload/bytes/binary'') (stringifyBinary env q) uploadOptions])
   \<and> (data q = Undefined \<and> \<not> isJSONString env (metadataB q) \<longrightarrow>
      execute (uploadBinaryToIPFSOnly this env (Val q)) =
        (Val q, [],
         Thrown (Error ''The request payload 'metadata' field must be a valid JSON''))
      \<and> execute (uploadBinary this env (Val q)) =
        (Val q, [],
         Thrown (Error ''The request payload 'metadata' field must be a valid JSON'')))
   \<and> (snd (snd (execute (uploadBinary this env (Val q)))) =
         Thrown (Error ''The request payload 'data' field is required'')) = (data q = Null)
   \<and> (snd (snd (execute (uploadBinaryToIPFSOnly this env (Val q)))) =
         Thrown (Error ''The request payload 'data' field is required'')) = (data q = Null)"
proof -
  have empty_text: "uploadTextToIPFS this env (Val p) rh =
      (Val p, [], Inl (Error ''The request payload 'text' field is required''))"
    if "text' p = Val []" for rh
    using that uploadTextToIPFS_no_text [of p this env rh] by blast
  have part1: "text' p = Val [] \<longrightarrow>
      execute (uploadText this env (Val p)) =
        (Val p, [], Thrown (Error ''The request payload 'text' field is required''))
      \<and> execute (uploadTextToIFPSOnly this env (Val p)) =
        (Val p, [], Thrown (Error ''The request payload 'text' field is required''))"
    by (simp add: execute_thrown_text empty_text)
  have part2: "data q = Undefined \<and> isJSONString env (metadataB q) \<longrightarrow>
      fst (snd (execute (uploadBinaryToIPFSOnly this env (Val q)))) =
        [HttpPost (baseUrl this @ ''upload/bytes/binary'') (stringifyBinary env q) uploadOptions]
      \<and> take 1 (fst (snd (execute (uploadBinary this env (Val q))))) =
        [HttpPost (baseUrl this @ ''upload/bytes/binary'') (stringifyBinary env q) uploadOptions]"
    by (simp add: execute_uploadBinaryToIPFSOnly_valid execute_uploadBinary_valid)
  have part3: "data q = Undefined \<and> \<not> isJSONString env (metadataB q) \<longrightarrow>
      execute (uploadBinaryToIPFSOnly this env (Val q)) =
        (Val q, [],
         Thrown (Error ''The request payload 'metadata' field must be a valid JSON''))
      \<and> execute (uploadBinary this env (Val q)) =
        (Val q, [],
         Thrown (Error ''The request payload 'metadata' field must be a valid JSON''))"
    by (simp add: execute_thrown_binary uploadBinaryToIPFS_bad_metadata)
  have part4: "(snd (snd (execute (uploadBinary this env (Val q)))) =
         Thrown (Error ''The request payload 'data' field is required'')) = (data q = Null)"
  proof (cases "data q = Null")
    case True
    then show ?thesis
      by (simp add: execute_thrown_binary uploadBinaryToIPFS_no_data)
  next
    case False
    then show ?thesis
      by (cases "isJSONString env (metadataB q)")
        (simp_all add: execute_uploadBinary_valid execute_thrown_binary
          uploadBinaryToIPFS_bad_metadata)
  qed
  have part5: "(snd (snd (execute (uploadBinaryToIPFSOnly this env (Val q)))) =
         Thrown (Error ''The request payload 'data' field is required'')) = (data q = Null)"
  proof (cases "data q = Null")
    case True
    then show ?thesis
      by (simp add: execute_thrown_binary uploadBinaryToIPFS_no_data)
  next
    case False
    then show ?thesis
      by (cases "isJSONString env (metadataB q)")
        (simp_all add: execute_uploadBinaryToIPFSOnly_valid execute_thrown_binary
          uploadBinaryToIPFS_bad_metadata)
  qed
  from part1 part2 part3 part4 part5 show ?thesis by blast
qed

theorem required_field_check_asymmetric_witness:
  "text' (sampleText\<lparr>text' := Val []\<rparr>) = Val []
   \<and> data (sampleBinary\<lparr>data := Undefined\<rparr>) = Undefined
   \<and> isJSONString sampleCollaborators (metadataB (sampleBinary\<lparr>data := Undefined\<rparr>))
   \<and> execute (uploadText sampleService sampleCollaborators (Val (sampleText\<lparr>text' := Val []\<rparr>))) =
        (Val (sampleText\<lparr>text' := Val []\<rparr>), [],
         Thrown (Error ''The request payload 'text' field is required''))
   \<and> fst (snd (execute (uploadBinaryToIPFSOnly sampleService sampleCollaborators
         (Val (sampleBinary\<lparr>data := Undefined\<rparr>))))) =
        [HttpPost ''https://testnet2.gateway.proximax.io/upload/bytes/binary'' ''{}''
           uploadOptions]
   \<and> snd (snd (execute (uploadBinary sampleService sampleCollaborators
         (Val (sampleBinary\<lparr>data := Undefined\<rparr>))))) \<noteq>
        Thrown (Error ''The request payload 'data' field is required'')"
proof -
  have given: "text' (sampleText\<lparr>text' := Val []\<rparr>) = Val []"
    "data (sampleBinary\<lparr>data := Undefined\<rparr>) = Undefined"
    "isJSONString sampleCollaborators (metadataB (sampleBinary\<lparr>data := Undefined\<rparr>))"
    by (simp_all add: sampleCollaborators_def sampleBinary_def)
  have request: "baseUrl sampleService @ ''upload/bytes/binary'' =
      ''https://testnet2.gateway.proximax.io/upload/bytes/binary''"
    "stringifyBinary sampleCollaborators (sampleBinary\<lparr>data := Undefined\<rparr>) = ''{}''"
    by (simp_all add: sampleService_def RemoteUploadService_new_def Let_def sampleCollaborators_def)
  show ?thesis
    using given request required_field_check_asymmetric
      [of "sampleText\<lparr>text' := Val []\<rparr>" sampleService sampleCollaborators
          "sampleBinary\<lparr>data := Undefined\<rparr>"]
    by simp
qed

section \<open>Storage-only uploads\<close>

text \<open>
  Claim C6. \<open>uploadTextToIFPSOnly\<close> and \<open>uploadBinaryToIPFSOnly\<close> never call the
  transaction announce service, neither \<open>signTransaction\<close> nor \<open>announceTransaction\<close>:
  whatever the payload and whatever the collaborators answer, no such call is among the
  things an execution does.
\<close>

theorem storage_only_never_signs_or_announces:
  "filter announceServiceCall (fst (snd (execute (uploadTextToIFPSOnly this env tp)))) = []
   \<and> filter announceServiceCall (fst (snd (execute (uploadBinaryToIPFSOnly this env bp)))) = []"
proof
  show "filter announceServiceCall (fst (snd (execute (uploadTextToIFPSOnly this env tp)))) = []"
  proof (cases rule: uploadTextToIPFS_cases [of this env tp True])
    case (thrown e)
    then show ?thesis by (simp add: execute_thrown_text)
  next
    case (returned p t enc)
    then show ?thesis by (simp add: execute_uploadTextToIFPSOnly_valid)
  qed
  show "filter announceServiceCall (fst (snd (execute (uploadBinaryToIPFSOnly this env bp)))) = []"
  proof (cases rule: uploadBinaryToIPFS_cases [of this env bp True])
    case (thrown e)
    then show ?thesis by (simp add: execute_thrown_binary)
  next
    case (returned p)
    then show ?thesis by (simp add: execute_uploadBinaryToIPFSOnly_valid)
  qed
qed

theorem storage_only_never_signs_or_announces_witness:
  "filter announceServiceCall
     (fst (snd (execute (uploadTextToIFPSOnly sampleService sampleCollaborators
        (Val sampleText))))) = []
   \<and> filter announceServiceCall
     (fst (snd (execute (uploadBinaryToIPFSOnly sampleService sampleCollaborators
        (Val sampleBinary))))) = []"
  using storage_only_never_signs_or_announces
    [of sampleService sampleCollaborators "Val sampleText" "Val sampleBinary"]
  by simp

section \<open>The request body\<close>

text \<open>
  C4 as the spec states it fails on a valid text request: the text is the euro sign
  (U+20AC), the metadata is valid, and \<open>btoa\<close> throws on the text. Both text operations
  throw that error and nothing is handed to the transport.
\<close>

theorem valid_text_with_wide_character_is_not_transmitted:
  "text' (sampleText\<lparr>text' := Val [0x20AC]\<rparr>) = Val [0x20AC]
   \<and> isJSONString sampleCollaborators (metadata (sampleText\<lparr>text' := Val [0x20AC]\<rparr>))
   \<and> btoa sampleCollaborators [0x20AC] = Inl (Exception ''InvalidCharacterError'')
   \<and> execute (uploadTextToIFPSOnly sampleService sampleCollaborators
        (Val (sampleText\<lparr>text' := Val [0x20AC]\<rparr>))) =
       (Val (sampleText\<lparr>text' := Val [0x20AC]\<rparr>), [],
        Thrown (Exception ''InvalidCharacterError''))
   \<and> execute (uploadText sampleService sampleCollaborators
        (Val (sampleText\<lparr>text' := Val [0x20AC]\<rparr>))) =
       (Val (sampleText\<lparr>text' := Val [0x20AC]\<rparr>), [],
        Thrown (Exception ''InvalidCharacterError''))"
proof -
  have given: "text' (sampleText\<lparr>text' := Val [0x20AC]\<rparr>) = Val [0x20AC]"
    "[0x20AC :: 16 word] \<noteq> []"
    "isJSONString sampleCollaborators (metadata (sampleText\<lparr>text' := Val [0x20AC]\<rparr>))"
    "btoa sampleCollaborators [0x20AC] = Inl (Exception ''InvalidCharacterError'')"
    by (simp_all add: sampleText_def sampleCollaborators_def btoa_euro)
  have "uploadTextToIPFS sampleService sampleCollaborators
      (Val (sampleText\<lparr>text' := Val [0x20AC]\<rparr>)) rh =
      (Val (sampleText\<lparr>text' := Val [0x20AC]\<rparr>), [], Inl (Exception ''InvalidCharacterError''))"
    for rh
    using given by (rule uploadTextToIPFS_btoa_throws)
  with given show ?thesis
    by (simp add: execute_thrown_text)
qed

text \<open>
  Claim C4, as the code has it. For a text upload that passes validation, \<open>btoa\<close> decides:
  when it returns, the body handed to the transport is the serialised request in which
  \<open>text\<close> is what \<open>btoa\<close> made of the text the caller supplied; when it throws, the call
  throws that error and nothing is transmitted. With the built-in \<open>btoa\<close> and a text whose
  characters are all at most U+00FF, the \<open>text\<close> of the body is the base64 encoding of the
  text's bytes. For a binary upload that passes validation, the body is the serialised
  request as the caller supplied it, \<open>data\<close> included, with nothing encoded.
\<close>

theorem text_body_encoded_binary_body_as_is:
  "(text' p = Val t \<and> t \<noteq> [] \<and> isJSONString env (metadata p) \<longrightarrow>
      (case btoa env t of
         Inl e \<Rightarrow>
           execute (uploadTextToIFPSOnly this env (Val p)) = (Val p, [], Thrown e)
           \<and> execute (uploadText this env (Val p)) = (Val p, [], Thrown e)
       | Inr enc \<Rightarrow>
           fst (snd (execute (uploadTextToIFPSOnly this env (Val p)))) =
             [ConsoleLog (stringifyText env (p\<lparr>text' := Val enc\<rparr>)),
              HttpPost (baseUrl this @ ''upload/text'')
                (stringifyText env (p\<lparr>text' := Val enc\<rparr>)) uploadOptions]
           \<and> take 2 (fst (snd (execute (uploadText this env (Val p))))) =
             [ConsoleLog (stringifyText env (p\<lparr>text' := Val enc\<rparr>)),
              HttpPost (baseUrl this @ ''upload/text'')
                (stringifyText env (p\<lparr>text' := Val enc\<rparr>)) uploadOptions]))
   \<and> (text' p = Val t \<and> t \<noteq> [] \<and> isJSONString env (metadata p)
       \<and> btoa env = btoa_builtin \<and> list_all (\<lambda>u. u \<le> 0xFF) t \<longrightarrow>
      fst (snd (execute (uploadTextToIFPSOnly this env (Val p)))) =
        [ConsoleLog
           (stringifyText env (p\<lparr>text' := Val (codeUnits (base64_encode (map ucast t)))\<rparr>)),
         HttpPost (baseUrl this @ ''upload/text'')
           (stringifyText env (p\<lparr>text' := Val (codeUnits (base64_encode (map ucast t)))\<rparr>))
           uploadOptions]
      \<and> take 2 (fst (snd (execute (uploadText this env (Val p))))) =
        [ConsoleLog
           (stringifyText env (p\<lparr>text' := Val (codeUnits (base64_encode (map ucast t)))\<rparr>)),
         HttpPost (baseUrl this @ ''upload/text'')
           (stringifyText env (p\<lparr>text' := Val (codeUnits (base64_encode (map ucast t)))\<rparr>))
           uploadOptions])
   \<and> (data q \<noteq> Null \<and> isJSONString env (metadataB q) \<longrightarrow>
      fst (snd (execute (uploadBinaryToIPFSOnly this env (Val q)))) =
        [HttpPost (baseUrl this @ ''upload/bytes/binary'') (stringifyBinary env q) uploadOptions]
      \<and> take 1 (fst (snd (execute (uploadBinary this env (Val q))))) =
        [HttpPost (baseUrl this @ ''upload/bytes/binary'') (stringifyBinary env q) uploadOptions]
      \<and> fst (execute (uploadBinary this env (Val q))) = Val q
      \<and> fst (execute (uploadBinaryToIPFSOnly this env (Val q))) = Val q)"
proof -
  have encoded: "fst (snd (execute (uploadTextToIFPSOnly this env (Val p)))) =
        [ConsoleLog (stringifyText env (p\<lparr>text' := Val enc\<rparr>)),
         HttpPost (baseUrl this @ ''upload/text'') (stringifyText env (p\<lparr>text' := Val enc\<rparr>))
           uploadOptions]
      \<and> take 2 (fst (snd (execute (uploadText this env (Val p))))) =
        [ConsoleLog (stringifyText env (p\<lparr>text' := Val enc\<rparr>)),
         HttpPost (baseUrl this @ ''upload/text'') (stringifyText env (p\<lparr>text' := Val enc\<rparr>))
           uploadOptions]"
    if v: "text' p = Val t" "t \<noteq> []" "isJSONString env (metadata p)" "btoa env t = Inr enc"
    for enc
    by (simp add: execute_uploadTextToIFPSOnly_valid [OF v] execute_uploadText_valid [OF v])
  have thrown: "execute (uploadTextToIFPSOnly this env (Val p)) = (Val p, [], Thrown e)
      \<and> execute (uploadText this env (Val p)) = (Val p, [], Thrown e)"
    if v: "text' p = Val t" "t \<noteq> []" "isJSONString env (metadata p)" "btoa env t = Inl e"
    for e
    by (simp add: execute_thrown_text uploadTextToIPFS_btoa_throws [OF v])
  have part1: "text' p = Val t \<and> t \<noteq> [] \<and> isJSONString env (metadata p) \<longrightarrow>
      (case btoa env t of
         Inl e \<Rightarrow>
           execute (uploadTextToIFPSOnly this env (Val p)) = (Val p, [], Thrown e)
           \<and> execute (uploadText this env (Val p)) = (Val p, [], Thrown e)
       | Inr enc \<Rightarrow>
           fst (snd (execute (uploadTextToIFPSOnly this env (Val p)))) =
             [ConsoleLog (stringifyText env (p\<lparr>text' := Val enc\<rparr>)),
              HttpPost (baseUrl this @ ''upload/text'')
                (stringifyText env (p\<lparr>text' := Val enc\<rparr>)) uploadOptions]
           \<and> take 2 (fst (snd (execute (uploadText this env (Val p))))) =
             [ConsoleLog (stringifyText env (p\<lparr>text' := Val enc\<rparr>)),
              HttpPost (baseUrl this @ ''upload/text'')
                (stringifyText env (p\<lparr>text' := Val enc\<rparr>)) uploadOptions])"
    using encoded thrown by (cases "btoa env t") simp_all
  have part2: "text' p = Val t \<and> t \<noteq> [] \<and> isJSONString env (metadata p)
       \<and> btoa env = btoa_builtin \<and> list_all (\<lambda>u. u \<le> 0xFF) t \<longrightarrow>
      fst (snd (execute (uploadTextToIFPSOnly this env (Val p)))) =
        [ConsoleLog
           (stringifyText env (p\<lparr>text' := Val (codeUnits (base64_encode (map ucast t)))\<rparr>)),
         HttpPost (baseUrl this @ ''upload/text'')
           (stringifyText env (p\<lparr>text' := Val (codeUnits (base64_encode (map ucast t)))\<rparr>))
           uploadOptions]
      \<and> take 2 (fst (snd (execute (uploadText this env (Val p))))) =
        [ConsoleLog
           (stringifyText env (p\<lparr>text' := Val (codeUnits (base64_encode (map ucast t)))\<rparr>)),
         HttpPost (baseUrl this @ ''upload/text'')
           (stringifyText env (p\<lparr>text' := Val (codeUnits (base64_encode (map ucast t)))\<rparr>))
           uploadOptions]"
  proof
    assume a: "text' p = Val t \<and> t \<noteq> [] \<and> isJSONString env (metadata p)
       \<and> btoa env = btoa_builtin \<and> list_all (\<lambda>u. u \<le> 0xFF) t"
    then have "btoa env t = Inr (codeUnits (base64_encode (map ucast t)))"
      by (simp add: btoa_builtin_def)
    with a encoded [of "codeUnits (base64_encode (map ucast t))"]
    show "fst (snd (execute (uploadTextToIFPSOnly this env (Val p)))) =
        [ConsoleLog
           (stringifyText env (p\<lparr>text' := Val (codeUnits (base64_encode (map ucast t)))\<rparr>)),
         HttpPost (baseUrl this @ ''upload/text'')
           (stringifyText env (p\<lparr>text' := Val (codeUnits (base64_encode (map ucast t)))\<rparr>))
           uploadOptions]
      \<and> take 2 (fst (snd (execute (uploadText this env (Val p))))) =
        [ConsoleLog
           (stringifyText env (p\<lparr>text' := Val (codeUnits (base64_encode (map ucast t)))\<rparr>)),
         HttpPost (baseUrl this @ ''upload/text'')
           (stringifyText env (p\<lparr>text' := Val (codeUnits (base64_encode (map ucast t)))\<rparr>))
           uploadOptions]"
      by blast
  qed
  have part3: "data q \<noteq> Null \<and> isJSONString env (metadataB q) \<longrightarrow>
      fst (snd (execute (uploadBinaryToIPFSOnly this env (Val q)))) =
        [HttpPost (baseUrl this @ ''upload/bytes/binary'') (stringifyBinary env q) uploadOptions]
      \<and> take 1 (fst (snd (execute (uploadBinary this env (Val q))))) =
        [HttpPost (baseUrl this @ ''upload/bytes/binary'') (stringifyBinary env q) uploadOptions]
      \<and> fst (execute (uploadBinary this env (Val q))) = Val q
      \<and> fst (execute (uploadBinaryToIPFSOnly this env (Val q))) = Val q"
    by (simp add: execute_uploadBinaryToIPFSOnly_valid execute_uploadBinary_valid)
  from part1 part2 part3 show ?thesis by blast
qed

theorem text_body_encoded_binary_body_as_is_witness:
  "text' sampleText = Val (codeUnits ''hi'') \<and> codeUnits ''hi'' \<noteq> []
   \<and> isJSONString sampleCollaborators (metadata sampleText)
   \<and> btoa sampleCollaborators = btoa_builtin
   \<and> list_all (\<lambda>u. u \<le> 0xFF) (codeUnits ''hi'')
   \<and> base64_encode (map ucast (codeUnits ''hi'')) = ''aGk=''
   \<and> data sampleBinary \<noteq> Null \<and> isJSONString sampleCollaborators (metadataB sampleBinary)
   \<and> fst (snd (execute (uploadTextToIFPSOnly sampleService sampleCollaborators (Val sampleText)))) =
        [ConsoleLog ''{text:aGk=}'',
         HttpPost ''https://testnet2.gateway.proximax.io/upload/text'' ''{text:aGk=}''
           uploadOptions]
   \<and> fst (snd (execute (uploadBinaryToIPFSOnly sampleService sampleCollaborators
         (Val sampleBinary)))) =
        [HttpPost ''https://testnet2.gateway.proximax.io/upload/bytes/binary'' ''{data:[x]}''
           uploadOptions]"
proof -
  have given: "text' sampleText = Val (codeUnits ''hi'')" "codeUnits ''hi'' \<noteq> []"
    "isJSONString sampleCollaborators (metadata sampleText)"
    "btoa sampleCollaborators = btoa_builtin"
    "list_all (\<lambda>u. u \<le> 0xFF) (codeUnits ''hi'')"
    "data sampleBinary \<noteq> Null" "isJSONString sampleCollaborators (metadataB sampleBinary)"
    by (simp_all add: sampleText_valid sampleBinary_valid)
      (simp_all add: sampleCollaborators_def codeUnits_def)
  have encoding: "base64_encode (map ucast (codeUnits ''hi'')) = ''aGk=''"
    by (simp add: codeUnits_def base64_chars_def)
  have request: "baseUrl sampleService @ ''upload/text'' =
      ''https://testnet2.gateway.proximax.io/upload/text''"
    "baseUrl sampleService @ ''upload/bytes/binary'' =
      ''https://testnet2.gateway.proximax.io/upload/bytes/binary''"
    "stringifyText sampleCollaborators (sampleText\<lparr>text' := Val (codeUnits ''aGk='')\<rparr>) =
      ''{text:aGk=}''"
    "stringifyBinary sampleCollaborators sampleBinary = ''{data:[x]}''"
    by (simp_all add: sampleService_fields sampleText_valid sampleBinary_valid)
  note body = text_body_encoded_binary_body_as_is
    [of sampleText "codeUnits ''hi''" sampleCollaborators sampleService sampleBinary]
  from body given encoding request show ?thesis
    by simp
qed

section \<open>The upload, sign, announce pipeline\<close>

text \<open>
  Claim C5. In every execution of \<open>uploadText\<close> and of \<open>uploadBinary\<close> the steps come in
  the order upload, sign, announce. Either the call throws and nothing is done; or the
  request is posted and fails, and nothing follows; or the request is posted and succeeds,
  the signer is called next, and the announcer is called last, once the signer has
  returned. So the signer and the announcer are called only after a successful upload.
\<close>

theorem upload_then_sign_then_announce:
  "(\<exists>tr. fst (snd (execute (uploadText this env tp))) = tr \<and>
      (tr = [] \<and> (\<exists>e. snd (snd (execute (uploadText this env tp))) = Thrown e)
       \<or> (\<exists>b e. post env (baseUrl this @ ''upload/text'') b uploadOptions = Inl e
             \<and> tr = [ConsoleLog b, HttpPost (baseUrl this @ ''upload/text'') b uploadOptions])
       \<or> (\<exists>b res c k1 k2 mt e.
             post env (baseUrl this @ ''upload/text'') b uploadOptions = Inr res
             \<and> signTransaction env (announceService this) c k1 k2 mt = Inl e
             \<and> tr = [ConsoleLog b, HttpPost (baseUrl this @ ''upload/text'') b uploadOptions,
                     SignTransaction c k1 k2 mt])
       \<or> (\<exists>b res c k1 k2 mt s.
             post env (baseUrl this @ ''upload/text'') b uploadOptions = Inr res
             \<and> signTransaction env (announceService this) c k1 k2 mt = Inr s
             \<and> tr = [ConsoleLog b, HttpPost (baseUrl this @ ''upload/text'') b uploadOptions,
                     SignTransaction c k1 k2 mt, AnnounceTransaction s])))
   \<and> (\<exists>tr. fst (snd (execute (uploadBinary this env bp))) = tr \<and>
      (tr = [] \<and> (\<exists>e. snd (snd (execute (uploadBinary this env bp))) = Thrown e)
       \<or> (\<exists>b e. post env (baseUrl this @ ''upload/bytes/binary'') b uploadOptions = Inl e
             \<and> tr = [HttpPost (baseUrl this @ ''upload/bytes/binary'') b uploadOptions])
       \<or> (\<exists>b res c k1 k2 mt e.
             post env (baseUrl this @ ''upload/bytes/binary'') b uploadOptions = Inr res
             \<and> signTransaction env
                  \<lparr>announceBaseUrl = baseUrl this, announceNetwork = nemNetwork this\<rparr>
                  c k1 k2 mt = Inl e
             \<and> tr = [HttpPost (baseUrl this @ ''upload/bytes/binary'') b uploadOptions,
                     SignTransaction c k1 k2 mt])
       \<or> (\<exists>b res c k1 k2 mt s.
             post env (baseUrl this @ ''upload/bytes/binary'') b uploadOptions = Inr res
             \<and> signTransaction env
                  \<lparr>announceBaseUrl = baseUrl this, announceNetwork = nemNetwork this\<rparr>
                  c k1 k2 mt = Inr s
             \<and> tr = [HttpPost (baseUrl this @ ''upload/bytes/binary'') b uploadOptions,
                     SignTransaction c k1 k2 mt, AnnounceTransaction s])))"
proof (rule conjI)
  show "\<exists>tr. fst (snd (execute (uploadText this env tp))) = tr \<and>
      (tr = [] \<and> (\<exists>e. snd (snd (execute (uploadText this env tp))) = Thrown e)
       \<or> (\<exists>b e. post env (baseUrl this @ ''upload/text'') b uploadOptions = Inl e
             \<and> tr = [ConsoleLog b, HttpPost (baseUrl this @ ''upload/text'') b uploadOptions])
       \<or> (\<exists>b res c k1 k2 mt e.
             post env (baseUrl this @ ''upload/text'') b uploadOptions = Inr res
             \<and> signTransaction env (announceService this) c k1 k2 mt = Inl e
             \<and> tr = [ConsoleLog b, HttpPost (baseUrl this @ ''upload/text'') b uploadOptions,
                     SignTransaction c k1 k2 mt])
       \<or> (\<exists>b res c k1 k2 mt s.
             post env (baseUrl this @ ''upload/text'') b uploadOptions = Inr res
             \<and> signTransaction env (announceService this) c k1 k2 mt = Inr s
             \<and> tr = [ConsoleLog b, HttpPost (baseUrl this @ ''upload/text'') b uploadOptions,
                     SignTransaction c k1 k2 mt, AnnounceTransaction s]))"
  proof (cases rule: uploadTextToIPFS_cases [of this env tp False])
    case (thrown e)
    then show ?thesis by (simp add: execute_thrown_text)
  next
    case (returned p t enc)
    let ?b = "stringifyText env (p\<lparr>text' := Val enc\<rparr>)"
    let ?ep = "baseUrl this @ ''upload/text''"
    have tr: "fst (snd (execute (uploadText this env tp))) =
        ConsoleLog ?b # HttpPost ?ep ?b uploadOptions #
          (case post env ?ep ?b uploadOptions of
             Inl e \<Rightarrow> []
           | Inr res \<Rightarrow>
               SignTransaction (JsString (body res)) (senderPrivateKey p) (recieverPublicKey p)
                 (messageType p) #
               (case signTransaction env (announceService this) (JsString (body res))
                       (senderPrivateKey p) (recieverPublicKey p) (messageType p) of
                  Inl e \<Rightarrow> []
                | Inr s \<Rightarrow> [AnnounceTransaction s]))"
      using returned by (simp add: execute_uploadText_valid)
    show ?thesis
    proof (cases "post env ?ep ?b uploadOptions")
      case (Inl e)
      with tr show ?thesis by auto
    next
      case res: (Inr res)
      show ?thesis
      proof (cases "signTransaction env (announceService this) (JsString (body res))
                       (senderPrivateKey p) (recieverPublicKey p) (messageType p)")
        case (Inl e)
        with tr res show ?thesis by fastforce
      next
        case (Inr s)
        with tr res show ?thesis by fastforce
      qed
    qed
  qed
next
  let ?svc = "\<lparr>announceBaseUrl = baseUrl this, announceNetwork = nemNetwork this\<rparr>"
  show "\<exists>tr. fst (snd (execute (uploadBinary this env bp))) = tr \<and>
      (tr = [] \<and> (\<exists>e. snd (snd (execute (uploadBinary this env bp))) = Thrown e)
       \<or> (\<exists>b e. post env (baseUrl this @ ''upload/bytes/binary'') b uploadOptions = Inl e
             \<and> tr = [HttpPost (baseUrl this @ ''upload/bytes/binary'') b uploadOptions])
       \<or> (\<exists>b res c k1 k2 mt e.
             post env (baseUrl this @ ''upload/bytes/binary'') b uploadOptions = Inr res
             \<and> signTransaction env ?svc c k1 k2 mt = Inl e
             \<and> tr = [HttpPost (baseUrl this @ ''upload/bytes/binary'') b uploadOptions,
                     SignTransaction c k1 k2 mt])
       \<or> (\<exists>b res c k1 k2 mt s.
             post env (baseUrl this @ ''upload/bytes/binary'') b uploadOptions = Inr res
             \<and> signTransaction env ?svc c k1 k2 mt = Inr s
             \<and> tr = [HttpPost (baseUrl this @ ''upload/bytes/binary'') b uploadOptions,
                     SignTransaction c k1 k2 mt, AnnounceTransaction s]))"
  proof (cases rule: uploadBinaryToIPFS_cases [of this env bp False])
    case (thrown e)
    then show ?thesis by (simp add: execute_thrown_binary)
  next
    case (returned p)
    let ?b = "stringifyBinary env p"
    let ?ep = "baseUrl this @ ''upload/bytes/binary''"
    have tr: "fst (snd (execute (uploadBinary this env bp))) =
        HttpPost ?ep ?b uploadOptions #
          (case post env ?ep ?b uploadOptions of
             Inl e \<Rightarrow> []
           | Inr res \<Rightarrow>
               SignTransaction (JsString (body res)) (senderPrivateKeyB p)
                 (recieverPublicKeyB p) (messageTypeB p) #
               (case signTransaction env ?svc (JsString (body res))
                       (senderPrivateKeyB p) (recieverPublicKeyB p) (messageTypeB p) of
                  Inl e \<Rightarrow> []
                | Inr s \<Rightarrow> [AnnounceTransaction s]))"
      using returned by (simp add: execute_uploadBinary_valid)
    show ?thesis
    proof (cases "post env ?ep ?b uploadOptions")
      case (Inl e)
      with tr show ?thesis by auto
    next
      case res: (Inr res)
      show ?thesis
      proof (cases "signTransaction env ?svc (JsString (body res))
                       (senderPrivateKeyB p) (recieverPublicKeyB p) (messageTypeB p)")
        case (Inl e)
        with tr res show ?thesis by fastforce
      next
        case (Inr s)
        with tr res show ?thesis by fastforce
      qed
    qed
  qed
qed

theorem upload_then_sign_then_announce_witness:
  "fst (snd (execute (uploadText sampleService sampleCollaborators (Val sampleText)))) =
     [ConsoleLog ''{text:aGk=}'',
      HttpPost ''https://testnet2.gateway.proximax.io/upload/text'' ''{text:aGk=}''
        uploadOptions,
      SignTransaction (JsString ''BAAAAA=='') ''k1'' ''k2'' PLAIN,
      AnnounceTransaction (SignedTransaction ''BAAAAA==k1'')]
   \<and> fst (snd (execute (uploadBinary sampleService sampleCollaborators (Val sampleBinary)))) =
     [HttpPost ''https://testnet2.gateway.proximax.io/upload/bytes/binary'' ''{data:[x]}''
        uploadOptions,
      SignTransaction (JsString ''BAAAAA=='') ''k1'' ''k2'' SECURE,
      AnnounceTransaction (SignedTransaction ''BAAAAA==k1'')]"
proof -
  note order = upload_then_sign_then_announce
    [of sampleService sampleCollaborators "Val sampleText" "Val sampleBinary"]
  from order show ?thesis
    unfolding sample_execute_uploadText sample_execute_uploadBinary by simp
qed

text \<open>
  C8 as the spec states it fails on the content: in the concrete execution the signer is
  handed the text \<open>BAAAAA==\<close> that the gateway answered, while the resource-hash record decoded
  from that answer is another value.
\<close>

theorem sign_content_is_not_the_decoded_record:
  "fst (snd (execute (uploadText sampleService sampleCollaborators (Val sampleText)))) =
     [ConsoleLog ''{text:aGk=}'',
      HttpPost ''https://testnet2.gateway.proximax.io/upload/text'' ''{text:aGk=}''
        uploadOptions,
      SignTransaction (JsString ''BAAAAA=='') ''k1'' ''k2'' PLAIN,
      AnnounceTransaction (SignedTransaction ''BAAAAA==k1'')]
   \<and> resourceHashOfResponse (JsResponse \<lparr>body = ''BAAAAA=='', status = 200\<rparr>) =
     Inr (JsResourceHash \<lparr>bb = \<lparr>bytes = [4, 0, 0, 0], position = 0\<rparr>, bb_pos = 4\<rparr>)
   \<and> SignTransaction
         (JsResourceHash \<lparr>bb = \<lparr>bytes = [4, 0, 0, 0], position = 0\<rparr>, bb_pos = 4\<rparr>)
         ''k1'' ''k2'' PLAIN \<notin>
     set (fst (snd (execute (uploadText sampleService sampleCollaborators (Val sampleText)))))"
  by (simp add: sample_execute_uploadText resourceHashOfResponse_def sample_decode)

text \<open>
  Claim C8, as the code has it. In an \<open>uploadText\<close> or \<open>uploadBinary\<close> whose request
  passes validation and whose upload succeeds, the content handed to \<open>signTransaction\<close> is
  the body of the upload response as it arrived: the base64 text, not the record decoded
  from it. The sender's private key, the receiver's public key and the message type come
  from the request. When the signer returns, what the subscriber is told is what
  \<open>announceTransaction\<close> delivers for the signed transaction.
\<close>

theorem sign_receives_response_body_and_announce_result_is_returned:
  "(text' p = Val t \<and> t \<noteq> [] \<and> isJSONString env (metadata p) \<and> btoa env t = Inr enc
    \<and> post env (baseUrl this @ ''upload/text'') (stringifyText env (p\<lparr>text' := Val enc\<rparr>))
         uploadOptions = Inr res
    \<and> signTransaction env (announceService this) (JsString (body res)) (senderPrivateKey p)
         (recieverPublicKey p) (messageType p) = Inr s \<longrightarrow>
      snd (execute (uploadText this env (Val p))) =
        ([ConsoleLog (stringifyText env (p\<lparr>text' := Val enc\<rparr>)),
          HttpPost (baseUrl this @ ''upload/text'') (stringifyText env (p\<lparr>text' := Val enc\<rparr>))
            uploadOptions,
          SignTransaction (JsString (body res)) (senderPrivateKey p) (recieverPublicKey p)
            (messageType p),
          AnnounceTransaction s],
         Told (announceTransaction env (announceService this) s)))
   \<and> (data q \<noteq> Null \<and> isJSONString env (metadataB q)
    \<and> post env (baseUrl this @ ''upload/bytes/binary'') (stringifyBinary env q) uploadOptions =
         Inr res'
    \<and> signTransaction env \<lparr>announceBaseUrl = baseUrl this, announceNetwork = nemNetwork this\<rparr>
         (JsString (body res')) (senderPrivateKeyB q) (recieverPublicKeyB q) (messageTypeB q) =
         Inr s' \<longrightarrow>
      snd (execute (uploadBinary this env (Val q))) =
        ([HttpPost (baseUrl this @ ''upload/bytes/binary'') (stringifyBinary env q) uploadOptions,
          SignTransaction (JsString (body res')) (senderPrivateKeyB q) (recieverPublicKeyB q)
            (messageTypeB q),
          AnnounceTransaction s'],
         Told (announceTransaction env
                 \<lparr>announceBaseUrl = baseUrl this, announceNetwork = nemNetwork this\<rparr> s')))"
proof (intro conjI impI)
  assume a: "text' p = Val t \<and> t \<noteq> [] \<and> isJSONString env (metadata p) \<and> btoa env t = Inr enc
    \<and> post env (baseUrl this @ ''upload/text'') (stringifyText env (p\<lparr>text' := Val enc\<rparr>))
         uploadOptions = Inr res
    \<and> signTransaction env (announceService this) (JsString (body res)) (senderPrivateKey p)
         (recieverPublicKey p) (messageType p) = Inr s"
  then have v: "text' p = Val t" "t \<noteq> []" "isJSONString env (metadata p)" "btoa env t = Inr enc"
    by simp_all
  from a show "snd (execute (uploadText this env (Val p))) =
        ([ConsoleLog (stringifyText env (p\<lparr>text' := Val enc\<rparr>)),
          HttpPost (baseUrl this @ ''upload/text'') (stringifyText env (p\<lparr>text' := Val enc\<rparr>))
            uploadOptions,
          SignTransaction (JsString (body res)) (senderPrivateKey p) (recieverPublicKey p)
            (messageType p),
          AnnounceTransaction s],
         Told (announceTransaction env (announceService this) s))"
    by (simp add: execute_uploadText_valid [OF v])
next
  assume a: "data q \<noteq> Null \<and> isJSONString env (metadataB q)
    \<and> post env (baseUrl this @ ''upload/bytes/binary'') (stringifyBinary env q) uploadOptions =
         Inr res'
    \<and> signTransaction env \<lparr>announceBaseUrl = baseUrl this, announceNetwork = nemNetwork this\<rparr>
         (JsString (body res')) (senderPrivateKeyB q) (recieverPublicKeyB q) (messageTypeB q) =
         Inr s'"
  then have v: "data q \<noteq> Null" "isJSONString env (metadataB q)"
    by simp_all
  from a show "snd (execute (uploadBinary this env (Val q))) =
        ([HttpPost (baseUrl this @ ''upload/bytes/binary'') (stringifyBinary env q) uploadOptions,
          SignTransaction (JsString (body res')) (senderPrivateKeyB q) (recieverPublicKeyB q)
            (messageTypeB q),
          AnnounceTransaction s'],
         Told (announceTransaction env
                 \<lparr>announceBaseUrl = baseUrl this, announceNetwork = nemNetwork this\<rparr> s'))"
    by (simp add: execute_uploadBinary_valid [OF v])
qed

theorem sign_receives_response_body_and_announce_result_is_returned_witness:
  "text' sampleText = Val (codeUnits ''hi'') \<and> codeUnits ''hi'' \<noteq> []
   \<and> isJSONString sampleCollaborators (metadata sampleText)
   \<and> btoa sampleCollaborators (codeUnits ''hi'') = Inr (codeUnits ''aGk='')
   \<and> post sampleCollaborators (baseUrl sampleService @ ''upload/text'')
        (stringifyText sampleCollaborators (sampleText\<lparr>text' := Val (codeUnits ''aGk='')\<rparr>)) uploadOptions =
        Inr \<lparr>body = ''BAAAAA=='', status = 200\<rparr>
   \<and> signTransaction sampleCollaborators (announceService sampleService) (JsString ''BAAAAA=='')
        (senderPrivateKey sampleText) (recieverPublicKey sampleText) (messageType sampleText) =
        Inr (SignedTransaction ''BAAAAA==k1'')
   \<and> data sampleBinary \<noteq> Null \<and> isJSONString sampleCollaborators (metadataB sampleBinary)
   \<and> post sampleCollaborators (baseUrl sampleService @ ''upload/bytes/binary'')
        (stringifyBinary sampleCollaborators sampleBinary) uploadOptions =
        Inr \<lparr>body = ''BAAAAA=='', status = 200\<rparr>
   \<and> signTransaction sampleCollaborators
        \<lparr>announceBaseUrl = baseUrl sampleService, announceNetwork = nemNetwork sampleService\<rparr>
        (JsString ''BAAAAA=='') (senderPrivateKeyB sampleBinary) (recieverPublicKeyB sampleBinary)
        (messageTypeB sampleBinary) = Inr (SignedTransaction ''BAAAAA==k1'')
   \<and> snd (execute (uploadText sampleService sampleCollaborators (Val sampleText))) =
        ([ConsoleLog (stringifyText sampleCollaborators (sampleText\<lparr>text' := Val (codeUnits ''aGk='')\<rparr>)),
          HttpPost (baseUrl sampleService @ ''upload/text'')
            (stringifyText sampleCollaborators (sampleText\<lparr>text' := Val (codeUnits ''aGk='')\<rparr>))
            uploadOptions,
          SignTransaction (JsString ''BAAAAA=='') (senderPrivateKey sampleText)
            (recieverPublicKey sampleText) (messageType sampleText),
          AnnounceTransaction (SignedTransaction ''BAAAAA==k1'')],
         Told (announceTransaction sampleCollaborators (announceService sampleService)
                 (SignedTransaction ''BAAAAA==k1'')))
   \<and> snd (execute (uploadBinary sampleService sampleCollaborators (Val sampleBinary))) =
        ([HttpPost (baseUrl sampleService @ ''upload/bytes/binary'')
            (stringifyBinary sampleCollaborators sampleBinary) uploadOptions,
          SignTransaction (JsString ''BAAAAA=='') (senderPrivateKeyB sampleBinary)
            (recieverPublicKeyB sampleBinary) (messageTypeB sampleBinary),
          AnnounceTransaction (SignedTransaction ''BAAAAA==k1'')],
         Told (announceTransaction sampleCollaborators
                 \<lparr>announceBaseUrl = baseUrl sampleService,
                    announceNetwork = nemNetwork sampleService\<rparr>
                 (SignedTransaction ''BAAAAA==k1'')))"
proof -
  have given_text:
    "text' sampleText = Val (codeUnits ''hi'') \<and> codeUnits ''hi'' \<noteq> []
     \<and> isJSONString sampleCollaborators (metadata sampleText)
     \<and> btoa sampleCollaborators (codeUnits ''hi'') = Inr (codeUnits ''aGk='')
     \<and> post sampleCollaborators (baseUrl sampleService @ ''upload/text'')
        (stringifyText sampleCollaborators (sampleText\<lparr>text' := Val (codeUnits ''aGk='')\<rparr>)) uploadOptions =
        Inr \<lparr>body = ''BAAAAA=='', status = 200\<rparr>
     \<and> signTransaction sampleCollaborators (announceService sampleService)
        (JsString (body \<lparr>body = ''BAAAAA=='', status = 200\<rparr>))
        (senderPrivateKey sampleText) (recieverPublicKey sampleText) (messageType sampleText) =
        Inr (SignedTransaction ''BAAAAA==k1'')"
    by (simp add: sampleText_valid sample_post sample_sign) (simp add: sampleText_def)
  have given_binary:
    "data sampleBinary \<noteq> Null \<and> isJSONString sampleCollaborators (metadataB sampleBinary)
     \<and> post sampleCollaborators (baseUrl sampleService @ ''upload/bytes/binary'')
        (stringifyBinary sampleCollaborators sampleBinary) uploadOptions =
        Inr \<lparr>body = ''BAAAAA=='', status = 200\<rparr>
     \<and> signTransaction sampleCollaborators
        \<lparr>announceBaseUrl = baseUrl sampleService, announceNetwork = nemNetwork sampleService\<rparr>
        (JsString (body \<lparr>body = ''BAAAAA=='', status = 200\<rparr>)) (senderPrivateKeyB sampleBinary)
        (recieverPublicKeyB sampleBinary) (messageTypeB sampleBinary) =
        Inr (SignedTransaction ''BAAAAA==k1'')"
    by (simp add: sampleBinary_valid sample_post sample_sign) (simp add: sampleBinary_def)
  note pipeline = sign_receives_response_body_and_announce_result_is_returned
    [of sampleText "codeUnits ''hi''" sampleCollaborators "codeUnits ''aGk=''" sampleService
        "\<lparr>body = ''BAAAAA=='', status = 200\<rparr>" "SignedTransaction ''BAAAAA==k1''" sampleBinary
        "\<lparr>body = ''BAAAAA=='', status = 200\<rparr>" "SignedTransaction ''BAAAAA==k1''"]
  from pipeline given_text given_binary show ?thesis
    by simp
qed

section \<open>The caller's request record\<close>

text \<open>
  C3 as the spec states it fails: \<open>uploadText\<close> leaves the caller's request with its
  \<open>text\<close> overwritten by the base64 encoding.
\<close>

theorem uploadText_overwrites_request_text:
  "fst (execute (uploadText sampleService sampleCollaborators (Val sampleText))) =
     Val (sampleText\<lparr>text' := Val (codeUnits ''aGk='')\<rparr>)
   \<and> text' sampleText = Val (codeUnits ''hi'')
   \<and> fst (execute (uploadText sampleService sampleCollaborators (Val sampleText))) \<noteq>
     Val sampleText"
  by (simp add: sample_execute_uploadText) (simp add: sampleText_def codeUnits_def)

text \<open>
  Claim C3, as the code has it. No public upload operation modifies any field of the
  caller's request other than \<open>text\<close>. The binary operations leave the request as it was,
  whatever the outcome. A text operation either throws, and then it has done nothing and
  the request is as it was; or it returns an observable, and then the request has its
  \<open>text\<close> replaced by the base64 encoding of the text and every other field as it was.
  So an execution that ends in a thrown error never leaves a modified request.
\<close>

theorem request_fields_unchanged_except_text:
  "fst (execute (uploadBinary this env bp)) = bp
   \<and> fst (execute (uploadBinaryToIPFSOnly this env bp)) = bp
   \<and> ((\<exists>e. execute (uploadText this env tp) = (tp, [], Thrown e))
       \<or> (\<exists>p t enc tr n. tp = Val p \<and> text' p = Val t \<and> btoa env t = Inr enc
            \<and> execute (uploadText this env tp) = (Val (p\<lparr>text' := Val enc\<rparr>), tr, Told n)))
   \<and> ((\<exists>e. execute (uploadTextToIFPSOnly this env tp) = (tp, [], Thrown e))
       \<or> (\<exists>p t enc tr n. tp = Val p \<and> text' p = Val t \<and> btoa env t = Inr enc
            \<and> execute (uploadTextToIFPSOnly this env tp) =
                (Val (p\<lparr>text' := Val enc\<rparr>), tr, Told n)))
   \<and> (\<forall>e. snd (snd (execute (uploadText this env tp))) = Thrown e \<longrightarrow>
          fst (execute (uploadText this env tp)) = tp)
   \<and> (\<forall>e. snd (snd (execute (uploadTextToIFPSOnly this env tp))) = Thrown e \<longrightarrow>
          fst (execute (uploadTextToIFPSOnly this env tp)) = tp)"
proof -
  have binary: "fst (execute (uploadBinary this env bp)) = bp"
  proof (cases rule: uploadBinaryToIPFS_cases [of this env bp False])
    case (thrown e)
    then show ?thesis by (simp add: execute_thrown_binary)
  next
    case (returned p)
    then show ?thesis by (simp add: execute_uploadBinary_valid)
  qed
  have binary_only: "fst (execute (uploadBinaryToIPFSOnly this env bp)) = bp"
  proof (cases rule: uploadBinaryToIPFS_cases [of this env bp True])
    case (thrown e)
    then show ?thesis by (simp add: execute_thrown_binary)
  next
    case (returned p)
    then show ?thesis by (simp add: execute_uploadBinaryToIPFSOnly_valid)
  qed
  have text_op: "(\<exists>e. execute (uploadText this env tp) = (tp, [], Thrown e))
       \<or> (\<exists>p t enc tr n. tp = Val p \<and> text' p = Val t \<and> btoa env t = Inr enc
            \<and> execute (uploadText this env tp) = (Val (p\<lparr>text' := Val enc\<rparr>), tr, Told n))"
  proof (cases rule: uploadTextToIPFS_cases [of this env tp False])
    case (thrown e)
    then show ?thesis by (simp add: execute_thrown_text)
  next
    case (returned p t enc)
    then have "\<exists>tr n. execute (uploadText this env tp) = (Val (p\<lparr>text' := Val enc\<rparr>), tr, Told n)"
      by (simp add: execute_uploadText_valid)
    with returned show ?thesis by blast
  qed
  have text_only: "(\<exists>e. execute (uploadTextToIFPSOnly this env tp) = (tp, [], Thrown e))
       \<or> (\<exists>p t enc tr n. tp = Val p \<and> text' p = Val t \<and> btoa env t = Inr enc
            \<and> execute (uploadTextToIFPSOnly this env tp) =
                (Val (p\<lparr>text' := Val enc\<rparr>), tr, Told n))"
  proof (cases rule: uploadTextToIPFS_cases [of this env tp True])
    case (thrown e)
    then show ?thesis by (simp add: execute_thrown_text)
  next
    case (returned p t enc)
    then have "\<exists>tr n. execute (uploadTextToIFPSOnly this env tp) =
        (Val (p\<lparr>text' := Val enc\<rparr>), tr, Told n)"
      by (simp add: execute_uploadTextToIFPSOnly_valid)
    with returned show ?thesis by blast
  qed
  have thrown_text: "\<forall>e. snd (snd (execute (uploadText this env tp))) = Thrown e \<longrightarrow>
          fst (execute (uploadText this env tp)) = tp"
    using text_op by auto
  have thrown_only: "\<forall>e. snd (snd (execute (uploadTextToIFPSOnly this env tp))) = Thrown e \<longrightarrow>
          fst (execute (uploadTextToIFPSOnly this env tp)) = tp"
    using text_only by auto
  from binary binary_only text_op text_only thrown_text thrown_only show ?thesis
    by blast
qed

theorem request_fields_unchanged_except_text_witness:
  "fst (execute (uploadBinary sampleService sampleCollaborators (Val sampleBinary))) =
     Val sampleBinary
   \<and> fst (execute (uploadBinaryToIPFSOnly sampleService sampleCollaborators (Val sampleBinary))) =
     Val sampleBinary
   \<and> fst (execute (uploadText sampleService sampleCollaborators (Val sampleText))) =
     Val \<lparr>text' = Val (codeUnits ''aGk=''), metadata = Val ''{}'', senderPrivateKey = ''k1'',
          recieverPublicKey = ''k2'', messageType = PLAIN\<rparr>
   \<and> snd (snd (execute (uploadText sampleService sampleCollaborators
        (Val (sampleText\<lparr>text' := Val [0x20AC]\<rparr>))))) = Thrown (Exception ''InvalidCharacterError'')
   \<and> fst (execute (uploadText sampleService sampleCollaborators
        (Val (sampleText\<lparr>text' := Val [0x20AC]\<rparr>)))) = Val (sampleText\<lparr>text' := Val [0x20AC]\<rparr>)"
proof -
  note frame = request_fields_unchanged_except_text
    [of sampleService sampleCollaborators "Val sampleBinary" "Val sampleText"]
  note frame_thrown = request_fields_unchanged_except_text
    [of sampleService sampleCollaborators "Val sampleBinary"
        "Val (sampleText\<lparr>text' := Val [0x20AC]\<rparr>)"]
  have returned: "fst (execute (uploadText sampleService sampleCollaborators (Val sampleText))) =
     Val \<lparr>text' = Val (codeUnits ''aGk=''), metadata = Val ''{}'', senderPrivateKey = ''k1'',
          recieverPublicKey = ''k2'', messageType = PLAIN\<rparr>"
    by (simp add: sample_execute_uploadText) (simp add: sampleText_def)
  have "uploadTextToIPFS sampleService sampleCollaborators
      (Val (sampleText\<lparr>text' := Val [0x20AC]\<rparr>)) False =
      (Val (sampleText\<lparr>text' := Val [0x20AC]\<rparr>), [], Inl (Exception ''InvalidCharacterError''))"
    by (rule uploadTextToIPFS_btoa_throws [where t = "[0x20AC]"])
      (simp_all add: sampleText_def sampleCollaborators_def btoa_euro)
  then have thrown: "snd (snd (execute (uploadText sampleService sampleCollaborators
        (Val (sampleText\<lparr>text' := Val [0x20AC]\<rparr>))))) = Thrown (Exception ''InvalidCharacterError'')"
    by (simp add: execute_thrown_text)
  from frame frame_thrown returned thrown show ?thesis
    by simp
qed

section \<open>Decoding the upload response\<close>




section \<open>The announce result types and codes\<close>








end
